theory Spec2Isabelle
  imports Main
begin

section \<open>Data model: cells and data frames\<close>

text \<open>
  A pandas cell of an object column is a text, a number or the missing value. The number
  type is left open (\<open>'n\<close>): the program never computes with the numbers it reads, it only
  produces them through \<open>pd.to_numeric\<close>. A text is a list of characters; the rules below
  look at ASCII characters only (capitals, comma, percent sign, the delimiters of a key),
  so a character outside ASCII is just a character that none of them matches.
\<close>

datatype 'n cell = Str string | Num 'n | NaN

text \<open>
  A data frame is kept column by column, in column order, each column a label and its
  cells; \<open>nrows\<close> is the length of the (default, \<open>0..n-1\<close>) row index. Labels may repeat,
  as pandas allows.
\<close>

record ('k, 'n) dataframe =
  nrows :: nat
  cols :: "('k \<times> 'n cell list) list"

definition columns :: "('k, 'n) dataframe \<Rightarrow> 'k list" where
  "columns df = map fst (cols df)"

text \<open>
  The frame handed to \<open>format_dataframe_columns\<close> has either a plain column index or a
  two-level \<open>MultiIndex\<close> whose entries are (group label, field label) tuples.
\<close>

datatype 'n raw_table =
    Index "(string, 'n) dataframe"
  | MultiIndex "(string \<times> string, 'n) dataframe"

section \<open>Header flattening: \<open>format_dataframe_columns\<close>\<close>

definition single_key :: "string \<Rightarrow> string \<Rightarrow> string" where
  \<comment> \<open>\<open>f"{col} ({stat_category})"\<close>\<close>
  "single_key stat_category col = col @ '' ('' @ stat_category @ '')''"

definition multi_key :: "string \<Rightarrow> string \<times> string \<Rightarrow> string" where
  \<comment> \<open>\<open>f"{col[1]} ({col[0]} - {stat_category})"\<close>\<close>
  "multi_key stat_category col =
     snd col @ '' ('' @ fst col @ '' - '' @ stat_category @ '')''"

definition rename_columns :: "('j \<Rightarrow> 'k) \<Rightarrow> ('j, 'n) dataframe \<Rightarrow> ('k, 'n) dataframe" where
  \<comment> \<open>\<open>df.columns = [f(col) for col in df.columns]\<close>: the cells stay where they are\<close>
  "rename_columns f df =
     \<lparr>nrows = nrows df, cols = map (\<lambda>(k, cs). (f k, cs)) (cols df)\<rparr>"

fun format_dataframe_columns :: "'n raw_table \<Rightarrow> string \<Rightarrow> (string, 'n) dataframe" where
  "format_dataframe_columns (MultiIndex df) stat_category =
     rename_columns (multi_key stat_category) df"
| "format_dataframe_columns (Index df) stat_category =
     rename_columns (single_key stat_category) df"

text \<open>
  Modelled from the spec: the repository has no function that reads a generated key back;
  \<open>rederive_key\<close> is the re-derivation of (group label, field label) that the spec's round
  trip property speaks of, for the key format \<open>"<field> (<group> - <tag>)"\<close>: the field is
  what stands before the first opening parenthesis (less the blank), the group what stands
  between that parenthesis and the first hyphen after it (less the blank).
\<close>

definition key_delimiters :: "char set" where
  "key_delimiters = {CHR '' '', CHR ''('', CHR '')'', CHR ''-''}"

definition delimiter_free :: "string \<Rightarrow> bool" where
  "delimiter_free s \<longleftrightarrow> list_all (\<lambda>c. c \<notin> key_delimiters) s"

definition rederive_key :: "string \<Rightarrow> (string \<times> string) option" where
  "rederive_key key =
     (let before = takeWhile (\<lambda>c. c \<noteq> CHR ''('') key;
          after = dropWhile (\<lambda>c. c \<noteq> CHR ''('') key
      in if after = [] \<or> before = [] then None
         else let inner = tl after;
                  grp = takeWhile (\<lambda>c. c \<noteq> CHR ''-'') inner
              in if grp = [] then None
                 else Some (butlast grp, butlast before))"

section \<open>Field coercion: the nationality rule of \<open>formatear_datos\<close>\<close>

text \<open>
  \<open>df["Nacionalidad"].astype(str).str.extract(r'([A-Z]+)$')\<close>. The character class
  \<open>[A-Z]\<close> is the 26 ASCII capitals. Python's \<open>$\<close> (no \<open>MULTILINE\<close>) matches at the end of
  the text and also just before a line feed that is the last character of the text.
  \<open>match_here\<close> is the pattern tried at one start position: the greedy run of capitals,
  which must be non-empty and must end where \<open>$\<close> matches (giving back capitals cannot
  help: inside the run the next character is a capital). \<open>re_search\<close> tries the start
  positions from left to right, as \<open>re.search\<close> does, and returns group 1.
\<close>

definition ascii_upper :: "char \<Rightarrow> bool" where
  "ascii_upper c \<longleftrightarrow> c \<in> set ''ABCDEFGHIJKLMNOPQRSTUVWXYZ''"

definition line_feed :: char where
  "line_feed = CHR 0x0A"

definition match_here :: "string \<Rightarrow> string option" where
  "match_here s =
     (let run = takeWhile ascii_upper s; rest = dropWhile ascii_upper s
      in if run \<noteq> [] \<and> (rest = [] \<or> rest = [line_feed]) then Some run else None)"

fun re_search :: "string \<Rightarrow> string option" where
  "re_search [] = match_here []"
| "re_search (c # cs) =
     (case match_here (c # cs) of Some g \<Rightarrow> Some g | None \<Rightarrow> re_search cs)"

definition astype_str :: "('n \<Rightarrow> string) \<Rightarrow> 'n cell \<Rightarrow> string" where
  \<comment> \<open>\<open>astype(str)\<close>; \<open>repr\<close> is Python's \<open>str\<close> on the numbers\<close>
  "astype_str repr c = (case c of Str s \<Rightarrow> s | Num v \<Rightarrow> repr v | NaN \<Rightarrow> ''nan'')"

definition str_extract :: "string \<Rightarrow> 'n cell" where
  "str_extract s = (case re_search s of Some g \<Rightarrow> Str g | None \<Rightarrow> NaN)"

definition extraer_nacionalidad :: "('n \<Rightarrow> string) \<Rightarrow> 'n cell \<Rightarrow> 'n cell" where
  "extraer_nacionalidad repr c = str_extract (astype_str repr c)"







definition upper_suffix :: "string \<Rightarrow> string" where
  \<comment> \<open>the longest suffix made of capitals: the trailing uppercase token\<close>
  "upper_suffix s = rev (takeWhile ascii_upper (rev s))"

section \<open>Position decomposition: \<open>procesar_posiciones\<close>\<close>

text \<open>
  Python exceptions are values of \<open>exn\<close>. The columns of the tables of this program are
  object columns. On such a column pandas offers the \<open>.str\<close> accessor when it holds a text
  (alone or mixed with other cells) or nothing but missing cells, and raises
  \<open>AttributeError\<close> when it holds numbers and no text; where the accessor is offered, a
  cell that is not a text yields the missing value under \<open>.str[...]\<close>.
\<close>

datatype exn =
    KeyError | ValueError | IndexError | AttributeError | TypeError
  | ExternalError string

definition mapping :: "(string \<times> string) list" where
  "mapping =
     [(''MF'', ''Midfielder''), (''DF'', ''Defender''),
      (''FW'', ''Forward''), (''GK'', ''Goalkeeper'')]"

definition str_slice :: "(string \<Rightarrow> string) \<Rightarrow> 'n cell \<Rightarrow> 'n cell" where
  \<comment> \<open>\<open>.str[a:b]\<close> on one cell of a text column: a cell that is not text gives missing\<close>
  "str_slice f c = (case c of Str s \<Rightarrow> Str (f s) | Num v \<Rightarrow> NaN | NaN \<Rightarrow> NaN)"

definition replace_dict :: "(string \<times> string) list \<Rightarrow> 'n cell \<Rightarrow> 'n cell" where
  \<comment> \<open>\<open>Series.replace(dict)\<close>: a cell equal to a key becomes its value, others stay\<close>
  "replace_dict d c =
     (case c of
        Str s \<Rightarrow> (case map_of d s of Some v \<Rightarrow> Str v | None \<Rightarrow> Str s)
      | Num v \<Rightarrow> Num v
      | NaN \<Rightarrow> NaN)"

definition posicion_principal :: "'n cell \<Rightarrow> 'n cell" where
  \<comment> \<open>\<open>df[columna].str[:2].replace(mapping)\<close>\<close>
  "posicion_principal c = replace_dict mapping (str_slice (take 2) c)"

definition posicion_2 :: "'n cell \<Rightarrow> 'n cell" where
  \<comment> \<open>\<open>df[columna].str[3:].replace(mapping)\<close>\<close>
  "posicion_2 c = replace_dict mapping (str_slice (drop 3) c)"

definition str_accessor :: "'n cell list \<Rightarrow> exn + 'n cell list" where
  \<comment> \<open>\<open>series.str\<close>\<close>
  "str_accessor cs =
     (if list_ex (\<lambda>c. case c of Num v \<Rightarrow> True | _ \<Rightarrow> False) cs
         \<and> \<not> list_ex (\<lambda>c. case c of Str s \<Rightarrow> True | _ \<Rightarrow> False) cs
      then Inl AttributeError
      else Inr cs)"

definition getitem :: "('k, 'n) dataframe \<Rightarrow> 'k \<Rightarrow> exn + 'n cell list" where
  \<comment> \<open>\<open>df[name]\<close> used as one column: a missing label raises \<open>KeyError\<close>; a repeated
      label gives a frame, on which the column accessor raises \<open>AttributeError\<close>\<close>
  "getitem df name =
     (case filter (\<lambda>(k, cs). k = name) (cols df) of
        [] \<Rightarrow> Inl KeyError
      | [(k, cs)] \<Rightarrow> Inr cs
      | _ \<Rightarrow> Inl AttributeError)"

definition setitem :: "('k, 'n) dataframe \<Rightarrow> 'k \<Rightarrow> 'n cell list \<Rightarrow> ('k, 'n) dataframe" where
  \<comment> \<open>\<open>df[name] = values\<close>: overwrite the column(s) of that label, else append one\<close>
  "setitem df name vals =
     (if name \<in> set (columns df)
      then df\<lparr>cols := map (\<lambda>(k, cs). if k = name then (k, vals) else (k, cs)) (cols df)\<rparr>
      else df\<lparr>cols := cols df @ [(name, vals)]\<rparr>)"

definition drop_column :: "('k, 'n) dataframe \<Rightarrow> 'k \<Rightarrow> ('k, 'n) dataframe" where
  "drop_column df name = df\<lparr>cols := filter (\<lambda>(k, cs). k \<noteq> name) (cols df)\<rparr>"

definition procesar_posiciones ::
  "(string, 'n) dataframe \<Rightarrow> string \<Rightarrow> exn + (string, 'n) dataframe" where
  "procesar_posiciones df columna =
     (case getitem df columna of
        Inl e \<Rightarrow> Inl e
      | Inr s1 \<Rightarrow>
     (case str_accessor s1 of
        Inl e \<Rightarrow> Inl e
      | Inr t1 \<Rightarrow>
     (let df1 = setitem df ''Posicion_principal'' (map posicion_principal t1) in
      case getitem df1 columna of
        Inl e \<Rightarrow> Inl e
      | Inr s2 \<Rightarrow>
     (case str_accessor s2 of
        Inl e \<Rightarrow> Inl e
      | Inr t2 \<Rightarrow>
          Inr (drop_column (setitem df1 ''Posicion_2'' (map posicion_2 t2)) columna)))))"

section \<open>Category merge: the shared last lines of \<open>creacion_df_general_fbref\<close> and
  \<open>creacion_df_porteros_fbref\<close>\<close>

definition reindex :: "nat \<Rightarrow> 'n cell list \<Rightarrow> 'n cell list" where
  \<comment> \<open>a column aligned to the row index \<open>0..n-1\<close>: rows it does not have are missing\<close>
  "reindex n cs = cs @ replicate (n - length cs) NaN"

definition max_rows :: "('k, 'n) dataframe list \<Rightarrow> nat" where
  "max_rows dfs = fold max (map nrows dfs) 0"

definition concat_axis1 :: "('k, 'n) dataframe list \<Rightarrow> exn + ('k, 'n) dataframe" where
  \<comment> \<open>\<open>pd.concat(dfs, axis=1)\<close> on frames with the default row index: the outer join of
      the indexes is \<open>0..max-1\<close>; the columns follow each other in input order\<close>
  "concat_axis1 dfs =
     (if dfs = [] then Inl ValueError
      else Inr \<lparr>nrows = max_rows dfs,
                cols = concat (map (\<lambda>df. map (\<lambda>(k, cs). (k, reindex (max_rows dfs) cs)) (cols df)) dfs)\<rparr>)"

fun duplicated :: "'k list \<Rightarrow> 'k list \<Rightarrow> bool list" where
  \<comment> \<open>\<open>Index.duplicated(keep='first')\<close>, given the labels already seen\<close>
  "duplicated seen [] = []"
| "duplicated seen (k # ks) = (k \<in> set seen) # duplicated (k # seen) ks"

definition loc_columns :: "bool list \<Rightarrow> ('k, 'n) dataframe \<Rightarrow> ('k, 'n) dataframe" where
  \<comment> \<open>\<open>df.loc[:, mask]\<close>\<close>
  "loc_columns keep df = df\<lparr>cols := map snd (filter fst (zip keep (cols df)))\<rparr>"

definition drop_duplicated :: "('k, 'n) dataframe \<Rightarrow> ('k, 'n) dataframe" where
  \<comment> \<open>\<open>df.loc[:, ~df.columns.duplicated(keep='first')]\<close>\<close>
  "drop_duplicated df = loc_columns (map Not (duplicated [] (columns df))) df"

text \<open>
  The columns that \<open>drop_duplicated\<close> keeps, written as a recursion over the columns: a
  column stays when its label has not been seen before.
\<close>

fun first_occurrences :: "'k list \<Rightarrow> ('k \<times> 'v) list \<Rightarrow> ('k \<times> 'v) list" where
  "first_occurrences seen [] = []"
| "first_occurrences seen ((k, v) # xs) =
     (if k \<in> set seen then first_occurrences (k # seen) xs
      else (k, v) # first_occurrences (k # seen) xs)"

text \<open>
  \<open>pd.to_numeric(column, errors='coerce')\<close> reads every cell and then types the column as a
  whole: when every cell reads as a 64-bit integer the column keeps these integers; as
  soon as one cell is missing, is rejected or reads as a float, every number of the
  column is stored as a float. What pandas' parser reads in a text (\<open>None\<close> where it
  rejects it), which numbers are 64-bit integers and the float of a number are left
  open.
\<close>

record 'n numerics =
  parse_number :: "string \<Rightarrow> 'n option"
  is_int64 :: "'n \<Rightarrow> bool"
  as_float64 :: "'n \<Rightarrow> 'n"

definition read_number :: "'n numerics \<Rightarrow> 'n cell \<Rightarrow> 'n cell" where
  "read_number nm c =
     (case c of
        Str s \<Rightarrow> (case parse_number nm s of Some v \<Rightarrow> Num v | None \<Rightarrow> NaN)
      | Num v \<Rightarrow> Num v
      | NaN \<Rightarrow> NaN)"

definition to_numeric :: "'n numerics \<Rightarrow> 'n cell list \<Rightarrow> 'n cell list" where
  "to_numeric nm cs =
     (let rs = map (read_number nm) cs
      in if list_all (\<lambda>r. case r of Num v \<Rightarrow> is_int64 nm v | _ \<Rightarrow> False) rs then rs
         else map (\<lambda>r. case r of Num v \<Rightarrow> Num (as_float64 nm v) | _ \<Rightarrow> NaN) rs)"

definition numeric_from :: "nat \<Rightarrow> 'n numerics \<Rightarrow> ('k, 'n) dataframe \<Rightarrow> ('k, 'n) dataframe" where
  \<comment> \<open>\<open>df.loc[:, df.columns[i:]] = df.loc[:, df.columns[i:]].apply(pd.to_numeric,
      errors='coerce')\<close>, on distinct labels (the merge has just dropped the repeated ones)\<close>
  "numeric_from i nm df =
     df\<lparr>cols := take i (cols df) @ map (\<lambda>(k, cs). (k, to_numeric nm cs)) (drop i (cols df))\<rparr>"

definition merge_categorias ::
  "'n numerics \<Rightarrow> ('k, 'n) dataframe list \<Rightarrow> exn + ('k, 'n) dataframe" where
  "merge_categorias nm dfs =
     (case concat_axis1 dfs of
        Inl e \<Rightarrow> Inl e
      | Inr df \<Rightarrow> Inr (numeric_from 7 nm (drop_duplicated df)))"

definition creacion_df_general_fbref ::
  "'n numerics \<Rightarrow> ('k, 'n) dataframe \<Rightarrow> ('k, 'n) dataframe \<Rightarrow> ('k, 'n) dataframe \<Rightarrow>
   ('k, 'n) dataframe \<Rightarrow> ('k, 'n) dataframe \<Rightarrow> ('k, 'n) dataframe \<Rightarrow> ('k, 'n) dataframe \<Rightarrow>
   ('k, 'n) dataframe \<Rightarrow> ('k, 'n) dataframe \<Rightarrow> exn + ('k, 'n) dataframe" where
  \<comment> \<open>lines 696 to 700, on the nine formatted category tables\<close>
  "creacion_df_general_fbref nm df_general_stats df_general_shooting df_general_passing
     df_general_passingtype df_general_gca df_general_df_defensiveactions df_general_possession
     df_general_misc df_playingtime_jugadores =
     merge_categorias nm
       [df_general_stats, df_general_shooting, df_general_passing, df_general_passingtype,
        df_general_gca, df_general_df_defensiveactions, df_general_possession, df_general_misc,
        df_playingtime_jugadores]"

definition creacion_df_porteros_fbref ::
  "'n numerics \<Rightarrow> ('k, 'n) dataframe \<Rightarrow> ('k, 'n) dataframe \<Rightarrow> exn + ('k, 'n) dataframe" where
  \<comment> \<open>lines 738 to 741, on the two formatted goalkeeping tables\<close>
  "creacion_df_porteros_fbref nm df_goalkeepers df_advgoalkeepers =
     merge_categorias nm [df_goalkeepers, df_advgoalkeepers]"

definition well_formed :: "('k, 'n) dataframe \<Rightarrow> bool" where
  \<comment> \<open>every column has one cell per row\<close>
  "well_formed df \<longleftrightarrow> list_all (\<lambda>(k, cs). length cs = nrows df) (cols df)"

definition first_column :: "('k, 'n) dataframe list \<Rightarrow> 'k \<Rightarrow> 'n cell list option" where
  \<comment> \<open>the cells of the first column of that label, in input order\<close>
  "first_column dfs name = map_of (concat (map cols dfs)) name"

section \<open>Numeric coercion: \<open>convertir_columnas_numericas_goalkeepers\<close> and
  \<open>convertir_columnas_numericas_jugadores\<close>\<close>

definition sub_all :: "char \<Rightarrow> string \<Rightarrow> string \<Rightarrow> string" where
  \<comment> \<open>\<open>re.sub\<close> of a one-character literal pattern: every occurrence is replaced\<close>
  "sub_all pat repl s = concat (map (\<lambda>x. if x = pat then repl else [x]) s)"

definition regex_replace :: "'n cell \<Rightarrow> 'n cell" where
  \<comment> \<open>\<open>col.replace({',': '.', '%': ''}, regex=True)\<close>: in a text cell every comma
      becomes a dot, then every percent sign goes; other cells stay\<close>
  "regex_replace c =
     (case c of
        Str s \<Rightarrow> Str (sub_all (CHR ''%'') [] (sub_all (CHR '','') ''.'' s))
      | Num v \<Rightarrow> Num v
      | NaN \<Rightarrow> NaN)"

definition coerce_column :: "'n numerics \<Rightarrow> 'n cell list \<Rightarrow> 'n cell list" where
  \<comment> \<open>\<open>lambda col: pd.to_numeric(col.replace({',': '.', '%': ''}, regex=True),
      errors='coerce')\<close>\<close>
  "coerce_column nm cs = to_numeric nm (map regex_replace cs)"

definition get_loc :: "'k list \<Rightarrow> 'k \<Rightarrow> exn + nat" where
  \<comment> \<open>\<open>df.columns.get_loc(name) + 1\<close> needs an integer position: a missing label raises
      \<open>KeyError\<close>, a repeated one gives a slice or mask and the addition or the slicing
      raises \<open>TypeError\<close>\<close>
  "get_loc ks name =
     (case filter (\<lambda>i. ks ! i = name) [0..<length ks] of
        [] \<Rightarrow> Inl KeyError
      | [i] \<Rightarrow> Inr i
      | _ \<Rightarrow> Inl TypeError)"

text \<open>
  \<open>df[cols_convertir] = df[cols_convertir].apply(...)\<close>. The right-hand side selects, for
  every label of the list in turn, all columns of that label, and converts them; the
  assignment then goes through the labels of the list and the labels of the converted
  frame side by side and executes \<open>df[k1] = converted[k2]\<close> for each pair. Such an
  assignment of one column overwrites every column labelled \<open>k1\<close>; an assignment of
  several columns (a repeated \<open>k2\<close>) needs as many columns labelled \<open>k1\<close> and raises
  \<open>ValueError\<close> otherwise. With distinct labels this converts the listed columns in
  place.
\<close>

definition select_labels :: "('k \<times> 'v) list \<Rightarrow> 'k list \<Rightarrow> ('k \<times> 'v) list" where
  \<comment> \<open>\<open>df[labels]\<close>\<close>
  "select_labels xs labels = concat (map (\<lambda>k. filter (\<lambda>(l, c). l = k) xs) labels)"

fun replace_in_order :: "('k \<times> 'v) list \<Rightarrow> 'k \<Rightarrow> 'v list \<Rightarrow> ('k \<times> 'v) list" where
  "replace_in_order [] k vs = []"
| "replace_in_order ((l, c) # xs) k vs =
     (if l = k
      then (case vs of
              [] \<Rightarrow> (l, c) # replace_in_order xs k []
            | v # vs' \<Rightarrow> (l, v) # replace_in_order xs k vs')
      else (l, c) # replace_in_order xs k vs)"

definition assign_label :: "('k \<times> 'v) list \<Rightarrow> 'k \<Rightarrow> 'v list \<Rightarrow> exn + ('k \<times> 'v) list" where
  \<comment> \<open>\<open>df[k1] = converted[k2]\<close>, \<open>vs\<close> the columns of \<open>converted\<close> labelled \<open>k2\<close>\<close>
  "assign_label xs k1 vs =
     (case vs of
        [v] \<Rightarrow> Inr (map (\<lambda>(l, c). if l = k1 then (l, v) else (l, c)) xs)
      | _ \<Rightarrow> if length (filter (\<lambda>(l, c). l = k1) xs) \<noteq> length vs then Inl ValueError
             else Inr (replace_in_order xs k1 vs))"

definition assign_columns ::
  "('k \<times> 'v) list \<Rightarrow> 'k list \<Rightarrow> ('k \<times> 'v) list \<Rightarrow> exn + ('k \<times> 'v) list" where
  \<comment> \<open>\<open>df[labels] = converted\<close>\<close>
  "assign_columns xs labels converted =
     fold (\<lambda>(k1, k2) acc.
             case acc of
               Inl e \<Rightarrow> Inl e
             | Inr ys \<Rightarrow> assign_label ys k1 (map snd (filter (\<lambda>(l, c). l = k2) converted)))
          (zip labels (map fst converted)) (Inr xs)"

definition coerce_span ::
  "(nat \<Rightarrow> bool) \<Rightarrow> 'n numerics \<Rightarrow> ('k, 'n) dataframe \<Rightarrow> exn + ('k, 'n) dataframe" where
  \<comment> \<open>the two lines shared by both functions; \<open>in_span\<close> says which positions
      \<open>cols_convertir\<close> lists\<close>
  "coerce_span in_span nm df =
     (let cols_convertir = map (\<lambda>i. fst (cols df ! i)) (filter in_span [0..<length (cols df)]);
          converted = map (\<lambda>(l, c). (l, coerce_column nm c)) (select_labels (cols df) cols_convertir)
      in case assign_columns (cols df) cols_convertir converted of
           Inl e \<Rightarrow> Inl e
         | Inr ys \<Rightarrow> Inr (df\<lparr>cols := ys\<rparr>))"

definition convertir_columnas_numericas_goalkeepers ::
  "'n numerics \<Rightarrow> ('k, 'n) dataframe \<Rightarrow> 'k \<Rightarrow> exn + ('k, 'n) dataframe" where
  \<comment> \<open>\<open>df.columns[loc + 1:]\<close>\<close>
  "convertir_columnas_numericas_goalkeepers nm df columna_inicio =
     (case get_loc (columns df) columna_inicio of
        Inl e \<Rightarrow> Inl e
      | Inr loc \<Rightarrow> coerce_span (\<lambda>i. loc + 1 \<le> i) nm df)"

definition convertir_columnas_numericas_jugadores ::
  "'n numerics \<Rightarrow> ('k, 'n) dataframe \<Rightarrow> 'k \<Rightarrow> exn + ('k, 'n) dataframe" where
  \<comment> \<open>\<open>df.columns[loc + 1 : -2]\<close>: the stop is two before the end (0 on fewer than two
      columns, which is what the subtraction on \<open>nat\<close> gives)\<close>
  "convertir_columnas_numericas_jugadores nm df columna_inicio =
     (case get_loc (columns df) columna_inicio of
        Inl e \<Rightarrow> Inl e
      | Inr loc \<Rightarrow> coerce_span (\<lambda>i. loc + 1 \<le> i \<and> i < length (cols df) - 2) nm df)"

section \<open>URL catalogue: \<open>LeagueManager\<close> and \<open>scrape_stats_player\<close>\<close>

definition base_url :: string where
  "base_url = ''https://fbref.com/en/comps/''"

definition seasons_available :: "string list" where
  "seasons_available = [''2024-2025'', ''2023-2024'', ''2022-2023'', ''2021-2022'', ''2020-2021'']"

definition possible_leagues :: "(string \<times> string \<times> string \<times> string list) list" where
  \<comment> \<open>league name, id as the f-string prints it, slug, seasons\<close>
  "possible_leagues =
     [(''Premier League'', ''9'', ''Premier-League'', seasons_available),
      (''La Liga'', ''12'', ''La-Liga'', seasons_available),
      (''Ligue 1'', ''13'', ''Ligue-1'', seasons_available),
      (''Bundesliga'', ''20'', ''Bundesliga'', seasons_available),
      (''Serie A'', ''11'', ''Serie-A'', seasons_available),
      (''Big 5 European Leagues'', ''Big5'', ''Big-5-European-Leagues'', seasons_available)]"

definition player_tables :: "(string \<times> string) list" where
  "player_tables =
     [(''Standard Stats'', ''stats/players''),
      (''Goalkeeping'', ''keepers/players''),
      (''Advanced Goalkeeping'', ''keepersadv/players''),
      (''Shooting'', ''shooting/players''),
      (''Passing'', ''passing/players''),
      (''Pass Types'', ''passing_types/players''),
      (''Goal and Shot Creation'', ''gca/players''),
      (''Defensive Actions'', ''defense/players''),
      (''Possession'', ''possession/players''),
      (''Playing Time'', ''playingtime/players''),
      (''Miscellaneous Stats'', ''misc/players'')]"

definition player_url :: "string \<Rightarrow> string \<Rightarrow> string \<Rightarrow> string \<Rightarrow> string" where
  \<comment> \<open>\<open>f"{base_url}{league_id}/{path}/{season}/{league_name.replace(' ', '-')}-Stats"\<close>\<close>
  "player_url league_name league_id path season =
     base_url @ league_id @ ''/'' @ path @ ''/'' @ season @ ''/''
       @ map (\<lambda>c. if c = CHR '' '' then CHR ''-'' else c) league_name @ ''-Stats''"

definition generate_player_urls :: "(string \<times> (string \<times> (string \<times> string) list) list) list" where
  "generate_player_urls =
     map (\<lambda>(league_name, league_id, slug, seasons).
            (league_name,
             map (\<lambda>season.
                    (season,
                     map (\<lambda>(stat_name, path).
                            (stat_name, player_url league_name league_id path season))
                         player_tables))
                 seasons))
         possible_leagues"

definition scrape_stats_player :: "string \<Rightarrow> string \<Rightarrow> string \<Rightarrow> exn + string" where
  "scrape_stats_player league season stat =
     (case map_of generate_player_urls league of
        None \<Rightarrow> Inl KeyError
      | Some league_data \<Rightarrow>
          (case map_of league_data season of
             None \<Rightarrow> Inl ValueError
           | Some season_data \<Rightarrow>
               (case map_of season_data stat of
                  None \<Rightarrow> Inl KeyError
                | Some url \<Rightarrow> Inr url)))"

section \<open>Table fetching: \<open>extract_tables\<close>\<close>

fun starts_with :: "'a list \<Rightarrow> 'a list \<Rightarrow> bool" where
  "starts_with [] xs = True"
| "starts_with (p # ps) [] = False"
| "starts_with (p # ps) (x # xs) = (p = x \<and> starts_with ps xs)"

fun str_in :: "'a list \<Rightarrow> 'a list \<Rightarrow> bool" where
  \<comment> \<open>Python's \<open>pat in text\<close>\<close>
  "str_in pat [] = starts_with pat []"
| "str_in pat (x # xs) = (starts_with pat (x # xs) \<or> str_in pat xs)"

definition ascii_lower :: "char \<Rightarrow> char" where
  "ascii_lower c =
     (case map_of (zip ''ABCDEFGHIJKLMNOPQRSTUVWXYZ'' ''abcdefghijklmnopqrstuvwxyz'') c of
        Some l \<Rightarrow> l
      | None \<Rightarrow> c)"

definition contains_nocase :: "string \<Rightarrow> string \<Rightarrow> bool" where
  \<comment> \<open>\<open>Index.str.contains(pat, case=False)\<close> for a pattern of letters, on ASCII\<close>
  "contains_nocase pat name = str_in (map ascii_lower pat) (map ascii_lower name)"

definition fillna0 :: "('k, 'n::zero) dataframe \<Rightarrow> ('k, 'n) dataframe" where
  \<comment> \<open>\<open>df.fillna(0)\<close>\<close>
  "fillna0 df =
     df\<lparr>cols := map (\<lambda>(k, cs). (k, map (\<lambda>c. case c of NaN \<Rightarrow> Num 0 | _ \<Rightarrow> c) cs)) (cols df)\<rparr>"

fun fillna0_raw :: "('n::zero) raw_table \<Rightarrow> 'n raw_table" where
  "fillna0_raw (Index df) = Index (fillna0 df)"
| "fillna0_raw (MultiIndex df) = MultiIndex (fillna0 df)"

definition drop_header_rows :: "('k, 'n) dataframe \<Rightarrow> exn + ('k, 'n) dataframe" where
  \<comment> \<open>\<open>df[df.iloc[:, 0] != 'Rk'].reset_index(drop=True)\<close>; \<open>iloc[:, 0]\<close> raises
      \<open>IndexError\<close> on a frame without columns\<close>
  "drop_header_rows df =
     (case cols df of
        [] \<Rightarrow> Inl IndexError
      | (k0, c0) # rest \<Rightarrow>
          let keep = map (\<lambda>c. case c of Str s \<Rightarrow> s \<noteq> ''Rk'' | _ \<Rightarrow> True) c0
          in Inr \<lparr>nrows = length (filter id keep),
                  cols = map (\<lambda>(k, cs). (k, map snd (filter fst (zip keep cs)))) (cols df)\<rparr>)"

definition drop_columns_containing :: "string \<Rightarrow> (string, 'n) dataframe \<Rightarrow> (string, 'n) dataframe" where
  \<comment> \<open>\<open>df.loc[:, ~df.columns.str.contains(pat, case=False)]\<close>\<close>
  "drop_columns_containing pat df =
     df\<lparr>cols := filter (\<lambda>(k, cs). \<not> contains_nocase pat k) (cols df)\<rparr>"

definition clean_columns :: "(string, 'n) dataframe \<Rightarrow> (string, 'n) dataframe" where
  "clean_columns df = drop_columns_containing ''Rk'' (drop_columns_containing ''matches'' df)"

definition DataFrame :: "string list list \<Rightarrow> string list \<Rightarrow> exn + (string, 'n) dataframe" where
  \<comment> \<open>\<open>pd.DataFrame(data, columns=headings)\<close> on a list of rows of texts: short rows
      are filled with missing cells up to the longest row, whose length must be the
      number of labels (\<open>ValueError\<close> otherwise); no rows at all gives the empty frame
      with these labels\<close>
  "DataFrame data labels =
     (if data = [] then Inr \<lparr>nrows = 0, cols = map (\<lambda>k. (k, [])) labels\<rparr>
      else if fold max (map length data) 0 \<noteq> length labels then Inl ValueError
      else Inr \<lparr>nrows = length data,
                cols = map (\<lambda>(j, k). (k, map (\<lambda>row. if j < length row then Str (row ! j) else NaN) data))
                           (zip [0..<length labels] labels)\<rparr>)"

definition df_insert ::
  "('k, 'n) dataframe \<Rightarrow> nat \<Rightarrow> 'k \<Rightarrow> 'n cell list \<Rightarrow> exn + ('k, 'n) dataframe" where
  \<comment> \<open>\<open>df.insert(loc, column, value)\<close>: \<open>ValueError\<close> when the label is already there,
      \<open>IndexError\<close> when \<open>loc\<close> is beyond the number of columns\<close>
  "df_insert df loc column val =
     (if column \<in> set (columns df) then Inl ValueError
      else if length (cols df) < loc then Inl IndexError
      else Inr (df\<lparr>cols := take loc (cols df) @ (column, val) # drop loc (cols df)\<rparr>))"

record table_element =
  headings :: "string list"
  tbody :: "string list list option"

text \<open>
  What the outside world answers: \<open>pd.read_html(url)\<close>; the comment nodes of the document
  that \<open>requests.get\<close> and \<open>BeautifulSoup\<close> deliver (or the exception of the request);
  the first \<open>table\<close> element of a comment's markup, with its \<open>th scope="col"\<close> texts and
  the cell texts of the rows of its \<open>tbody\<close>; and whether writing the spreadsheet fails.
\<close>

record 'n web =
  read_html :: "string \<Rightarrow> exn + 'n raw_table list"
  http_comments :: "string \<Rightarrow> exn + string list"
  find_table :: "string \<Rightarrow> table_element option"
  to_excel :: "(string, 'n) dataframe \<Rightarrow> string \<Rightarrow> exn option"

datatype message =
    NoUrl | UrlGenerada string | ErrorUrl exn | ScrapingDatos string
  | ErrorReadHtml exn | ErrorBeautifulSoup exn

type_synonym 'n fetched = "message list \<times> (string, 'n) dataframe option \<times> string option"

definition table_container :: string where
  "table_container = ''<div class='' @ [CHR 0x22] @ ''table_container'' @ [CHR 0x22]"

definition big5 :: string where
  "big5 = ''Big 5 European Leagues''"

definition read_html_branch :: "string \<Rightarrow> string \<Rightarrow> ('n::zero) raw_table \<Rightarrow> 'n fetched" where
  \<comment> \<open>the body of \<open>if "Big5" in url and tables:\<close>, on \<open>tables[0]\<close>, inside its \<open>try\<close>\<close>
  "read_html_branch stat url table0 =
     (let df = format_dataframe_columns (fillna0_raw table0) stat
      in case drop_header_rows df of
           Inl e \<Rightarrow> ([UrlGenerada url, ScrapingDatos stat, ErrorReadHtml e], Some df, Some url)
         | Inr df' \<Rightarrow> ([UrlGenerada url, ScrapingDatos stat], Some (clean_columns df'), Some url))"

definition soup_failed :: "string \<Rightarrow> (string, 'n) dataframe option \<Rightarrow> exn \<Rightarrow> 'n fetched" where
  \<comment> \<open>\<open>except Exception as e: print(...); return df, url\<close>\<close>
  "soup_failed url df e = ([UrlGenerada url, ErrorBeautifulSoup e], df, Some url)"

definition beautifulsoup_branch ::
  "('n::zero) web \<Rightarrow> string \<Rightarrow> string \<Rightarrow> string \<Rightarrow> bool \<Rightarrow> string \<Rightarrow> 'n fetched" where
  "beautifulsoup_branch w league season stat save_excel url =
     (case http_comments w url of
        Inl e \<Rightarrow> soup_failed url None e
      | Inr comment_tables \<Rightarrow>
     (case find (str_in table_container) comment_tables of
        None \<Rightarrow> soup_failed url None ValueError
      | Some comment_table \<Rightarrow>
     (case find_table w comment_table of
        None \<Rightarrow> soup_failed url None ValueError
      | Some table \<Rightarrow>
     (case tbody table of
        None \<Rightarrow> soup_failed url None AttributeError
      | Some data \<Rightarrow>
     (case DataFrame data (headings table) of
        Inl e \<Rightarrow> soup_failed url None e
      | Inr df0 \<Rightarrow>
     (let df1 = fillna0 df0 in
      case (if league \<noteq> big5
            then df_insert df1 4 ''Comp'' (replicate (nrows df1) (Str league))
            else Inr df1) of
        Inl e \<Rightarrow> soup_failed url (Some df1) e
      | Inr df2 \<Rightarrow>
     (let df3 = format_dataframe_columns (Index df2) stat in
      case drop_header_rows df3 of
        Inl e \<Rightarrow> soup_failed url (Some df3) e
      | Inr df4 \<Rightarrow>
     (let df5 = clean_columns df4 in
      case (if save_excel
            then to_excel w df5 (league @ '' - '' @ season @ '' - '' @ stat @ '' - player stats.xlsx'')
            else None) of
        Some e \<Rightarrow> soup_failed url (Some df5) e
      | None \<Rightarrow> ([UrlGenerada url], Some df5, Some url)))))))))"

definition extract_tables ::
  "('n::zero) web \<Rightarrow> string \<Rightarrow> string \<Rightarrow> string \<Rightarrow> bool \<Rightarrow> 'n fetched" where
  "extract_tables w league season stat save_excel =
     (case scrape_stats_player league season stat of
        Inl e \<Rightarrow> ([ErrorUrl e], None, None)
      | Inr url \<Rightarrow>
          if url = [] then ([NoUrl], None, Some url)
          else (case read_html w url of
                  Inl e \<Rightarrow> ([UrlGenerada url, ErrorReadHtml e], None, Some url)
                | Inr tables \<Rightarrow>
                    if str_in ''Big5'' url \<and> tables \<noteq> []
                    then read_html_branch stat url (hd tables)
                    else beautifulsoup_branch w league season stat save_excel url))"

definition failed :: "'n fetched \<Rightarrow> bool" where
  \<comment> \<open>the call went through one of its \<open>except\<close> handlers, or had no URL\<close>
  "failed r \<longleftrightarrow> list_ex (\<lambda>m. case m of ErrorUrl e \<Rightarrow> True | ErrorReadHtml e \<Rightarrow> True
                               | ErrorBeautifulSoup e \<Rightarrow> True | NoUrl \<Rightarrow> True | _ \<Rightarrow> False) (fst r)"

section \<open>Example inputs\<close>

text \<open>
  A small instance of the number reader: integers, and decimals as a mantissa with a
  count of decimal places. It reads the texts \<open>3\<close> and \<open>80.5\<close> and rejects every other text.
\<close>

datatype number = Integer int | Decimal int nat

definition plain_numerics :: "number numerics" where
  "plain_numerics =
     \<lparr>parse_number =
        (\<lambda>s. if s = ''3'' then Some (Integer 3)
              else if s = ''80.5'' then Some (Decimal 805 1)
              else None),
      is_int64 = (\<lambda>v. case v of Integer i \<Rightarrow> True | Decimal m d \<Rightarrow> False),
      as_float64 = (\<lambda>v. case v of Integer i \<Rightarrow> Decimal i 0 | Decimal m d \<Rightarrow> Decimal m d)\<rparr>"

text \<open>
  Two answers of the outside world for a single-league page: the direct parse finds some
  visible table, and the second comment holds the table container. In the first the
  comment table has six columns and a repeated header row; in the second it has two
  columns only.
\<close>

definition web_la_liga :: "nat web" where
  "web_la_liga = \<lparr>read_html = (\<lambda>u. Inr [Index \<lparr>nrows = 1, cols = [(''Squad'', [Str ''Athletic Club''])]\<rparr>]),
      http_comments = (\<lambda>u. Inr [''navigation'', table_container @ '' id=div_stats_keeper>'']),
      find_table = (\<lambda>c. Some \<lparr>headings = [''Rk'', ''Player'', ''Nation'', ''Pos'', ''Squad'', ''Age''],
                               tbody = Some [[''1'', ''Unai Simon'', ''es ESP'', ''GK'', ''Athletic Club'', ''27-100''],
                                             [''Rk'', ''Player'', ''Nation'', ''Pos'', ''Squad'', ''Age'']]\<rparr>),
      to_excel = (\<lambda>d n. None)\<rparr>"

definition web_small_table :: "nat web" where
  "web_small_table = \<lparr>read_html = (\<lambda>u. Inr [Index \<lparr>nrows = 1, cols = [(''Squad'', [Str ''Athletic Club''])]\<rparr>]),
      http_comments = (\<lambda>u. Inr [''navigation'', table_container @ '' id=div_stats_keeper>'']),
      find_table = (\<lambda>c. Some \<lparr>headings = [''Rk'', ''Player''],
                               tbody = Some [[''1'', ''Unai Simon'']]\<rparr>),
      to_excel = (\<lambda>d n. None)\<rparr>"

section \<open>Header flattening: properties\<close>

lemma columns_rename_columns: "columns (rename_columns f df) = map f (columns df)"
  by (simp add: columns_def rename_columns_def case_prod_unfold comp_def)

lemma cells_rename_columns: "map snd (cols (rename_columns f df)) = map snd (cols df)"
  by (simp add: rename_columns_def case_prod_unfold comp_def)

lemma single_key_inject: "single_key t a = single_key t b \<longleftrightarrow> a = b"
  by (simp add: single_key_def)

lemma inj_single_key: "inj (single_key t)"
  by (simp add: inj_def single_key_inject)

lemma nrows_rename_columns: "nrows (rename_columns f df) = nrows df"
  by (simp add: rename_columns_def)

lemma takeWhile_upto: "c \<notin> set xs \<Longrightarrow> takeWhile (\<lambda>x. x \<noteq> c) (xs @ c # ys) = xs"
  by (induction xs) auto

lemma dropWhile_upto: "c \<notin> set xs \<Longrightarrow> dropWhile (\<lambda>x. x \<noteq> c) (xs @ c # ys) = c # ys"
  by (induction xs) auto

lemma multi_key_split:
  "multi_key t (grp, fld) =
     (fld @ '' '') @ CHR ''('' # (grp @ '' '') @ CHR ''-'' # ('' '' @ t @ '')'')"
  by (simp add: multi_key_def)

lemma rederive_multi_key:
  assumes f: "CHR ''('' \<notin> set fld" and g: "CHR ''-'' \<notin> set grp"
  shows "rederive_key (multi_key t (grp, fld)) = Some (grp, fld)"
proof -
  have nf: "CHR ''('' \<notin> set (fld @ '' '')"
    using f by simp
  have ng: "CHR ''-'' \<notin> set (grp @ '' '')"
    using g by simp
  show ?thesis
    unfolding rederive_key_def multi_key_split
      takeWhile_upto [OF nf] dropWhile_upto [OF nf]
    by (simp only: Let_def list.sel takeWhile_upto [OF ng] butlast_snoc)
      simp
qed

lemma delimiter_free_iff: "delimiter_free s \<longleftrightarrow> set s \<inter> key_delimiters = {}"
  by (auto simp: delimiter_free_def list_all_iff)

lemma rederive_delimiter_free:
  "delimiter_free grp \<Longrightarrow> delimiter_free fld \<Longrightarrow>
     rederive_key (multi_key t (grp, fld)) = Some (grp, fld)"
  by (rule rederive_multi_key) (auto simp: delimiter_free_iff key_delimiters_def)

lemma multi_key_inj_on:
  assumes "delimiter_free (fst a)" "delimiter_free (snd a)" "delimiter_free (fst b)" "delimiter_free (snd b)"
    and eq: "multi_key t a = multi_key t b"
  shows "a = b"
proof -
  have "rederive_key (multi_key t (fst a, snd a)) = Some (fst a, snd a)"
    using assms(1,2) by (rule rederive_delimiter_free)
  then have ra: "rederive_key (multi_key t a) = Some a"
    by (simp only: prod.collapse)
  have "rederive_key (multi_key t (fst b, snd b)) = Some (fst b, snd b)"
    using assms(3,4) by (rule rederive_delimiter_free)
  then have rb: "rederive_key (multi_key t b) = Some b"
    by (simp only: prod.collapse)
  have "Some a = Some b"
    using ra rb unfolding eq by (rule trans [OF sym])
  then show ?thesis by (simp only: option.inject)
qed

lemma inj_on_multi_key:
  assumes "list_all (\<lambda>(grp, fld). delimiter_free grp \<and> delimiter_free fld) ks"
  shows "inj_on (multi_key tag) (set ks)"
proof (rule inj_onI)
  fix a b assume a: "a \<in> set ks" and b: "b \<in> set ks" and eq: "multi_key tag a = multi_key tag b"
  from assms a have "delimiter_free (fst a)" "delimiter_free (snd a)"
    by (auto simp: list_all_iff case_prod_unfold)
  moreover from assms b have "delimiter_free (fst b)" "delimiter_free (snd b)"
    by (auto simp: list_all_iff case_prod_unfold)
  ultimately show "a = b"
    using eq by (rule multi_key_inj_on)
qed

text \<open>
  C4. In column order, \<open>format_dataframe_columns\<close> gives every column of a single-level
  header the key \<open>"<label> (<tag>)"\<close> and every column of a two-level header the key
  \<open>"<field> (<group> - <tag>)"\<close>; the cells and the row count are untouched.
\<close>

theorem format_dataframe_columns_keys:
  "columns (format_dataframe_columns (Index df) tag)
     = map (\<lambda>label. label @ '' ('' @ tag @ '')'') (columns df)
   \<and> columns (format_dataframe_columns (MultiIndex mdf) tag)
     = map (\<lambda>(grp, fld). fld @ '' ('' @ grp @ '' - '' @ tag @ '')'') (columns mdf)
   \<and> map snd (cols (format_dataframe_columns (Index df) tag)) = map snd (cols df)
   \<and> map snd (cols (format_dataframe_columns (MultiIndex mdf) tag)) = map snd (cols mdf)
   \<and> nrows (format_dataframe_columns (Index df) tag) = nrows df
   \<and> nrows (format_dataframe_columns (MultiIndex mdf) tag) = nrows mdf"
  by (simp add: columns_rename_columns cells_rename_columns nrows_rename_columns
      single_key_def multi_key_def case_prod_unfold)

text \<open>
  C5, as stated, fails: a single-level header that carries the label \<open>Att\<close> twice keeps
  both columns, under one and the same key.
\<close>

theorem flatten_collision_counterexample:
  "columns (format_dataframe_columns
      (Index \<lparr>nrows = 1, cols = [(''Att'', [Str ''7'' :: nat cell]), (''Att'', [Str ''9''])]\<rparr>) ''Passing'')
     = [''Att (Passing)'', ''Att (Passing)'']"
  by (simp add: columns_def rename_columns_def single_key_def)

text \<open>
  C5, amended. \<open>format_dataframe_columns\<close> drops no column: every column of the input is
  in the result, in order, under its generated key. The keys of a single-level header
  are pairwise distinct exactly when its labels are; the keys of a two-level header
  whose labels are free of the delimiter characters are pairwise distinct exactly when
  its (group, field) pairs are.
\<close>

theorem flatten_keeps_every_column:
  "map snd (cols (format_dataframe_columns (Index df) tag)) = map snd (cols df)
   \<and> map snd (cols (format_dataframe_columns (MultiIndex mdf) tag)) = map snd (cols mdf)
   \<and> (distinct (columns (format_dataframe_columns (Index df) tag)) \<longleftrightarrow> distinct (columns df))
   \<and> (list_all (\<lambda>(grp, fld). delimiter_free grp \<and> delimiter_free fld) (columns mdf) \<longrightarrow>
        (distinct (columns (format_dataframe_columns (MultiIndex mdf) tag)) \<longleftrightarrow> distinct (columns mdf)))"
proof -
  have 1: "distinct (map (single_key tag) (columns df)) \<longleftrightarrow> distinct (columns df)"
    by (simp add: distinct_map inj_single_key [THEN inj_on_subset])
  have 2: "distinct (map (multi_key tag) (columns mdf)) \<longleftrightarrow> distinct (columns mdf)"
    if "list_all (\<lambda>(grp, fld). delimiter_free grp \<and> delimiter_free fld) (columns mdf)"
    using inj_on_multi_key [OF that, of tag] by (simp add: distinct_map)
  show ?thesis
    using 1 2 by (simp add: columns_rename_columns cells_rename_columns)
qed

theorem flatten_keeps_every_column_witness:
  "list_all (\<lambda>(grp, fld). delimiter_free grp \<and> delimiter_free fld)
      (columns \<lparr>nrows = 1, cols = [((''Performance'', ''Gls''), [Str ''10'' :: nat cell]),
                                    ((''Performance'', ''Ast''), [Str ''5''])]\<rparr>)
   \<and> distinct (columns (format_dataframe_columns
        (MultiIndex \<lparr>nrows = 1, cols = [((''Performance'', ''Gls''), [Str ''10'' :: nat cell]),
                                        ((''Performance'', ''Ast''), [Str ''5''])]\<rparr>) ''Standard Stats''))
   \<and> distinct (columns (format_dataframe_columns
        (Index \<lparr>nrows = 1, cols = [(''Gls'', [Str ''10'' :: nat cell]), (''Ast'', [Str ''5''])]\<rparr>)
        ''Standard Stats''))"
proof -
  let ?mdf = "\<lparr>nrows = 1, cols = [((''Performance'', ''Gls''), [Str ''10'' :: nat cell]),
                                    ((''Performance'', ''Ast''), [Str ''5''])]\<rparr>"
  let ?df = "\<lparr>nrows = 1, cols = [(''Gls'', [Str ''10'' :: nat cell]), (''Ast'', [Str ''5''])]\<rparr>"
  have c: "columns ?mdf = [(''Performance'', ''Gls''), (''Performance'', ''Ast'')]"
    by (simp add: columns_def)
  have d: "columns ?df = [''Gls'', ''Ast'']"
    by (simp add: columns_def)
  have h: "list_all (\<lambda>(grp, fld). delimiter_free grp \<and> delimiter_free fld) (columns ?mdf)"
    unfolding c by (simp add: delimiter_free_def key_delimiters_def)
  have dm: "distinct (columns ?mdf)"
    unfolding c by simp
  have dd: "distinct (columns ?df)"
    unfolding d by simp
  from flatten_keeps_every_column [of ?df "''Standard Stats''" ?mdf] h dm dd
  show ?thesis by blast
qed

text \<open>
  C6. For a two-level header whose group and field labels contain none of the delimiter
  characters of the key format (blank, parentheses, hyphen), reading each generated key
  back gives exactly the original (group, field) pair, whatever the category tag.
\<close>

theorem flatten_round_trip:
  assumes "list_all (\<lambda>(grp, fld). delimiter_free grp \<and> delimiter_free fld) (columns mdf)"
  shows "map rederive_key (columns (format_dataframe_columns (MultiIndex mdf) tag))
           = map Some (columns mdf)"
  using assms
  by (auto simp: columns_rename_columns list_all_iff rederive_delimiter_free)

theorem flatten_round_trip_witness:
  "list_all (\<lambda>(grp, fld). delimiter_free grp \<and> delimiter_free fld)
      (columns \<lparr>nrows = 1, cols = [((''Performance'', ''Gls''), [Str ''10'' :: nat cell]),
                                    ((''Performance'', ''Ast''), [Str ''5''])]\<rparr>)
   \<and> map rederive_key [''Gls (Performance - Standard Stats)'', ''Ast (Performance - Standard Stats)'']
       = [Some (''Performance'', ''Gls''), Some (''Performance'', ''Ast'')]"
proof -
  let ?df = "\<lparr>nrows = 1, cols = [((''Performance'', ''Gls''), [Str ''10'' :: nat cell]),
                                    ((''Performance'', ''Ast''), [Str ''5''])]\<rparr>"
  have c: "columns ?df = [(''Performance'', ''Gls''), (''Performance'', ''Ast'')]"
    by (simp add: columns_def)
  have h: "list_all (\<lambda>(grp, fld). delimiter_free grp \<and> delimiter_free fld) (columns ?df)"
    unfolding c by (simp add: delimiter_free_def key_delimiters_def)
  have k: "columns (format_dataframe_columns (MultiIndex ?df) ''Standard Stats'')
             = [''Gls (Performance - Standard Stats)'', ''Ast (Performance - Standard Stats)'']"
    by (simp only: format_dataframe_columns.simps columns_rename_columns c)
      (simp add: multi_key_def)
  from flatten_round_trip [OF h, of "''Standard Stats''"]
  have "map rederive_key [''Gls (Performance - Standard Stats)'', ''Ast (Performance - Standard Stats)'']
       = [Some (''Performance'', ''Gls''), Some (''Performance'', ''Ast'')]"
    unfolding k c by simp
  with h show ?thesis by (rule conjI)
qed

section \<open>Nationality extraction and position decomposition: properties\<close>









lemma upper_suffix_snoc_upper: "ascii_upper c \<Longrightarrow> upper_suffix (q @ [c]) \<noteq> []"
  by (simp add: upper_suffix_def)









text \<open>
  The search also finds capitals that stand before one final line feed; no cell of the
  tables ends in a line feed (see \<open>get_text_strip_end\<close> for the comment table).
\<close>

lemma extraer_nacionalidad_before_line_feed:
  "extraer_nacionalidad (\<lambda>n :: nat. ''0'') (Str (''ESP'' @ [line_feed])) = Str ''ESP''"
  by (simp add: extraer_nacionalidad_def astype_str_def str_extract_def match_here_def
      ascii_upper_def line_feed_def)






text \<open>
  C3, as stated, fails: for the raw code \<open>DF\<close> the secondary role is the empty text, not a
  "none" marker.
\<close>

theorem posicion_2_empty_counterexample:
  "posicion_2 (Str ''DF'' :: nat cell) = Str []"
  by (simp add: posicion_2_def str_slice_def replace_dict_def mapping_def)

lemma getitem_append_other:
  "name \<noteq> other \<Longrightarrow> getitem (df\<lparr>cols := cols df @ [(other, v)]\<rparr>) name = getitem df name"
  by (simp add: getitem_def)

lemma setitem_fresh:
  "name \<notin> set (columns df) \<Longrightarrow> setitem df name v = df\<lparr>cols := cols df @ [(name, v)]\<rparr>"
  by (simp add: setitem_def)

lemma str_accessor_text: "Str s \<in> set cs \<Longrightarrow> str_accessor cs = Inr cs"
  by (force simp: str_accessor_def list_ex_iff)

lemma str_accessor_numbers:
  "Num v \<in> set cs \<Longrightarrow> \<forall>s. Str s \<notin> set cs \<Longrightarrow> str_accessor cs = Inl AttributeError"
  by (force simp: str_accessor_def list_ex_iff split: cell.splits)

lemma procesar_posiciones_frame:
  assumes col: "getitem df columna = Inr cs" and has_text: "Str s \<in> set cs"
    and fresh: "''Posicion_principal'' \<notin> set (columns df)" "''Posicion_2'' \<notin> set (columns df)"
  shows "procesar_posiciones df columna =
           Inr \<lparr>nrows = nrows df,
                cols = filter (\<lambda>(k, c). k \<noteq> columna) (cols df)
                         @ [(''Posicion_principal'', map posicion_principal cs),
                            (''Posicion_2'', map posicion_2 cs)]\<rparr>"
proof -
  have "columna \<in> set (columns df)"
  proof (rule ccontr)
    assume "columna \<notin> set (columns df)"
    then have "filter (\<lambda>(k, c). k = columna) (cols df) = []"
      by (force simp: columns_def filter_empty_conv)
    with col show False by (simp add: getitem_def)
  qed
  with fresh have ne: "columna \<noteq> ''Posicion_principal''" "columna \<noteq> ''Posicion_2''"
    by auto
  have acc: "str_accessor cs = Inr cs"
    using has_text by (rule str_accessor_text)
  let ?df1 = "df\<lparr>cols := cols df @ [(''Posicion_principal'', map posicion_principal cs)]\<rparr>"
  have s1: "setitem df ''Posicion_principal'' (map posicion_principal cs) = ?df1"
    using fresh(1) by (rule setitem_fresh)
  have g1: "getitem ?df1 columna = Inr cs"
    using col ne(1) by (simp add: getitem_append_other)
  have "''Posicion_2'' \<notin> set (columns ?df1)"
    using fresh(2) by (simp add: columns_def)
  then have s2: "setitem ?df1 ''Posicion_2'' (map posicion_2 cs)
                  = ?df1\<lparr>cols := cols ?df1 @ [(''Posicion_2'', map posicion_2 cs)]\<rparr>"
    by (rule setitem_fresh)
  show ?thesis
    using ne by (simp add: procesar_posiciones_def col acc s1 g1 s2 drop_column_def)
qed

lemma procesar_posiciones_refused:
  assumes "getitem df columna = Inr cs" "Num v \<in> set cs" "\<forall>s. Str s \<notin> set cs"
  shows "procesar_posiciones df columna = Inl AttributeError"
  using assms(1) str_accessor_numbers [OF assms(2,3)]
  by (simp add: procesar_posiciones_def)

text \<open>
  C3, amended. \<open>MF,FW\<close> decomposes into primary role Midfielder and secondary role
  Forward; \<open>DF\<close> into primary role Defender and, as secondary role, the empty text; and
  for every raw code without a secondary token (at most three characters) the secondary
  role is the empty text. On a table that has the raw column once, with a text in it,
  and no role columns yet, \<open>procesar_posiciones\<close> drops the raw column and appends the two
  role columns, computed cell by cell in this way; on a raw column of numbers without
  any text it raises \<open>AttributeError\<close>.
\<close>

theorem posiciones_decomposition:
  "posicion_principal (Str ''MF,FW'') = (Str ''Midfielder'' :: 'n cell)
   \<and> posicion_2 (Str ''MF,FW'') = (Str ''Forward'' :: 'n cell)
   \<and> posicion_principal (Str ''DF'') = (Str ''Defender'' :: 'n cell)
   \<and> posicion_2 (Str ''DF'') = (Str [] :: 'n cell)
   \<and> (length s \<le> 3 \<longrightarrow> posicion_2 (Str s) = (Str [] :: 'n cell))
   \<and> (getitem df columna = Inr cs \<and> Str t \<in> set cs
        \<and> ''Posicion_principal'' \<notin> set (columns df)
        \<and> ''Posicion_2'' \<notin> set (columns df) \<longrightarrow>
      procesar_posiciones df columna =
        Inr \<lparr>nrows = nrows df,
             cols = filter (\<lambda>(k, c). k \<noteq> columna) (cols df)
                      @ [(''Posicion_principal'', map posicion_principal (cs :: 'n cell list)),
                         (''Posicion_2'', map posicion_2 cs)]\<rparr>)
   \<and> (getitem df columna = Inr cs \<and> Num v \<in> set cs \<and> (\<forall>u. Str u \<notin> set cs) \<longrightarrow>
      procesar_posiciones df columna = Inl AttributeError)"
proof -
  have cells: "posicion_principal (Str ''MF,FW'') = (Str ''Midfielder'' :: 'n cell)"
    "posicion_2 (Str ''MF,FW'') = (Str ''Forward'' :: 'n cell)"
    "posicion_principal (Str ''DF'') = (Str ''Defender'' :: 'n cell)"
    "posicion_2 (Str ''DF'') = (Str [] :: 'n cell)"
    by (simp_all add: posicion_principal_def posicion_2_def str_slice_def replace_dict_def mapping_def)
  have short: "posicion_2 (Str s) = (Str [] :: 'n cell)" if "length s \<le> 3"
    using that by (simp add: posicion_2_def str_slice_def replace_dict_def mapping_def)
  from cells short procesar_posiciones_frame [of df columna cs t]
    procesar_posiciones_refused [of df columna cs v]
  show ?thesis by blast
qed

theorem posiciones_decomposition_witness:
  "length ''GK'' \<le> 3 \<and> posicion_2 (Str ''GK'' :: nat cell) = Str []
   \<and> getitem (\<lparr>nrows = 2, cols = [(''Player'', [Str ''Pedri'', Str ''Pau'' :: nat cell]),
                            (''Posicion'', [Str ''MF,FW'', Str ''DF''])]\<rparr>) ''Posicion'' = Inr [Str ''MF,FW'', Str ''DF'']
   \<and> Str ''DF'' \<in> set [Str ''MF,FW'', Str ''DF'' :: nat cell]
   \<and> ''Posicion_principal'' \<notin> set (columns (\<lparr>nrows = 2, cols = [(''Player'', [Str ''Pedri'', Str ''Pau'' :: nat cell]),
                            (''Posicion'', [Str ''MF,FW'', Str ''DF''])]\<rparr>))
   \<and> ''Posicion_2'' \<notin> set (columns (\<lparr>nrows = 2, cols = [(''Player'', [Str ''Pedri'', Str ''Pau'' :: nat cell]),
                            (''Posicion'', [Str ''MF,FW'', Str ''DF''])]\<rparr>))
   \<and> procesar_posiciones (\<lparr>nrows = 2, cols = [(''Player'', [Str ''Pedri'', Str ''Pau'' :: nat cell]),
                            (''Posicion'', [Str ''MF,FW'', Str ''DF''])]\<rparr>) ''Posicion''
      = Inr \<lparr>nrows = 2, cols = [(''Player'', [Str ''Pedri'', Str ''Pau'']),
                                (''Posicion_principal'', [Str ''Midfielder'', Str ''Defender'']),
                                (''Posicion_2'', [Str ''Forward'', Str []])]\<rparr>
   \<and> getitem (\<lparr>nrows = 2, cols = [(''Player'', [Str ''Pedri'', Str ''Pau'' :: nat cell]),
                            (''Posicion'', [Num 0, Num 0])]\<rparr>) ''Posicion'' = Inr [Num 0, Num 0]
   \<and> procesar_posiciones (\<lparr>nrows = 2, cols = [(''Player'', [Str ''Pedri'', Str ''Pau'' :: nat cell]),
                            (''Posicion'', [Num 0, Num 0])]\<rparr>) ''Posicion'' = Inl AttributeError"
proof -
  let ?df = "\<lparr>nrows = 2, cols = [(''Player'', [Str ''Pedri'', Str ''Pau'' :: nat cell]),
                            (''Posicion'', [Str ''MF,FW'', Str ''DF''])]\<rparr>"
  let ?dn = "\<lparr>nrows = 2, cols = [(''Player'', [Str ''Pedri'', Str ''Pau'' :: nat cell]),
                            (''Posicion'', [Num 0, Num 0])]\<rparr>"
  have l: "length ''GK'' \<le> 3" by simp
  have g: "getitem ?df ''Posicion'' = Inr [Str ''MF,FW'', Str ''DF'']"
    by (simp add: getitem_def)
  have m: "Str ''DF'' \<in> set [Str ''MF,FW'', Str ''DF'' :: nat cell]" by simp
  have f: "''Posicion_principal'' \<notin> set (columns ?df)" "''Posicion_2'' \<notin> set (columns ?df)"
    by (simp_all add: columns_def)
  have gn: "getitem ?dn ''Posicion'' = Inr [Num 0, Num 0]"
    by (simp add: getitem_def)
  note t = posiciones_decomposition [where 'n = nat and s = "''GK''" and df = ?df
      and columna = "''Posicion''" and cs = "[Str ''MF,FW'', Str ''DF'']" and t = "''DF''"]
  note n = posiciones_decomposition [where 'n = nat and df = ?dn
      and columna = "''Posicion''" and cs = "[Num 0, Num 0]" and v = 0]
  from t l have p2: "posicion_2 (Str ''GK'' :: nat cell) = Str []" by blast
  from t g m f have "procesar_posiciones ?df ''Posicion'' =
        Inr \<lparr>nrows = nrows ?df,
             cols = filter (\<lambda>(k, c). k \<noteq> ''Posicion'') (cols ?df)
                      @ [(''Posicion_principal'', map posicion_principal [Str ''MF,FW'', Str ''DF'']),
                         (''Posicion_2'', map posicion_2 [Str ''MF,FW'', Str ''DF''])]\<rparr>"
    by blast
  then have r: "procesar_posiciones ?df ''Posicion''
      = Inr \<lparr>nrows = 2, cols = [(''Player'', [Str ''Pedri'', Str ''Pau'']),
                                (''Posicion_principal'', [Str ''Midfielder'', Str ''Defender'']),
                                (''Posicion_2'', [Str ''Forward'', Str []])]\<rparr>"
    by (simp add: posicion_principal_def posicion_2_def str_slice_def replace_dict_def mapping_def)
  have "Num 0 \<in> set [Num 0, Num 0 :: nat cell]" "\<forall>u. Str u \<notin> set [Num 0, Num 0 :: nat cell]"
    by simp_all
  with n gn have e: "procesar_posiciones ?dn ''Posicion'' = Inl AttributeError"
    by blast
  from l p2 g m f r gn e show ?thesis by (intro conjI)
qed

section \<open>Category merge: properties\<close>

lemma loc_not_duplicated:
  "map snd (filter fst (zip (map Not (duplicated seen (map fst xs))) xs)) = first_occurrences seen xs"
  by (induction seen xs rule: first_occurrences.induct) simp_all

lemma cols_drop_duplicated: "cols (drop_duplicated df) = first_occurrences [] (cols df)"
  by (simp add: drop_duplicated_def loc_columns_def columns_def loc_not_duplicated)

lemma nrows_drop_duplicated: "nrows (drop_duplicated df) = nrows df"
  by (simp add: drop_duplicated_def loc_columns_def)

lemma first_occurrences_keys:
  "fst ` set (first_occurrences seen xs) = fst ` set xs - set seen"
  by (induction seen xs rule: first_occurrences.induct) auto

lemma first_occurrences_subset: "set (first_occurrences seen xs) \<subseteq> set xs"
  by (induction seen xs rule: first_occurrences.induct) auto

lemma first_occurrences_distinct: "distinct (map fst (first_occurrences seen xs))"
proof (induction seen xs rule: first_occurrences.induct)
  case (1 seen)
  show ?case by simp
next
  case (2 seen k v xs)
  have "k \<notin> fst ` set (first_occurrences (k # seen) xs)"
    by (simp add: first_occurrences_keys)
  with 2 show ?case by simp
qed

lemma first_occurrences_map_of:
  "name \<notin> set seen \<Longrightarrow> map_of (first_occurrences seen xs) name = map_of xs name"
  by (induction seen xs rule: first_occurrences.induct) auto

lemma max_rows_ge: "df \<in> set dfs \<Longrightarrow> nrows df \<le> max_rows dfs"
proof -
  have "\<And>m. x \<in> set xs \<or> x \<le> m \<Longrightarrow> x \<le> fold max xs (m::nat)" for x xs
  proof (induction xs)
    case Nil
    then show ?case by simp
  next
    case (Cons a xs)
    show ?case
      unfolding fold_simps
      by (rule Cons.IH) (use Cons.prems in auto)
  qed
  then show "df \<in> set dfs \<Longrightarrow> nrows df \<le> max_rows dfs"
    unfolding max_rows_def by (metis imageI list.set_map)
qed

lemma fold_max_in: "fold max xs (m::nat) = m \<or> fold max xs m \<in> set xs"
proof (induction xs arbitrary: m)
  case Nil
  show ?case by simp
next
  case (Cons a xs)
  show ?case
    using Cons.IH [of "max a m"] by (auto simp: max_def split: if_splits)
qed

lemma max_rows_attained: "dfs \<noteq> [] \<Longrightarrow> \<exists>df \<in> set dfs. nrows df = max_rows dfs"
proof -
  assume ne: "dfs \<noteq> []"
  from fold_max_in [of "map nrows dfs" 0]
  show ?thesis
  proof
    assume z: "fold max (map nrows dfs) 0 = 0"
    obtain d where d: "d \<in> set dfs" using ne by (cases dfs) auto
    then have "nrows d \<le> max_rows dfs" by (rule max_rows_ge)
    then have "nrows d = max_rows dfs" using z by (simp add: max_rows_def)
    with d show ?thesis by blast
  next
    assume "fold max (map nrows dfs) 0 \<in> set (map nrows dfs)"
    then show ?thesis by (auto simp: max_rows_def)
  qed
qed

lemma length_to_numeric: "length (to_numeric nm cs) = length cs"
  by (simp add: to_numeric_def Let_def)

lemma read_number_missing: "read_number nm NaN = NaN"
  by (simp add: read_number_def)

lemma to_numeric_missing:
  assumes "j < length cs" "cs ! j = NaN"
  shows "to_numeric nm cs ! j = NaN"
  using assms by (simp add: to_numeric_def Let_def read_number_missing)

lemma map_fst_relabel: "map fst (map (\<lambda>(k, cs). (k, f cs)) ys) = map fst ys"
  by (induction ys) auto

lemma columns_numeric_from: "columns (numeric_from i nm df) = columns df"
proof -
  let ?xs = "cols df"
  have "map fst (take i ?xs @ map (\<lambda>(k, cs). (k, to_numeric nm cs)) (drop i ?xs))
          = map fst (take i ?xs) @ map fst (drop i ?xs)"
    by (simp only: map_append map_fst_relabel)
  also have "\<dots> = map fst ?xs"
    by (simp only: map_append [symmetric] append_take_drop_id)
  finally show ?thesis by (simp add: numeric_from_def columns_def)
qed

lemma nth_numeric_from:
  assumes "j < length (cols df)"
  shows "cols (numeric_from i nm df) ! j =
           (fst (cols df ! j), (if j < i then id else to_numeric nm) (snd (cols df ! j)))"
proof (cases "j < i")
  case True
  then show ?thesis
    using assms by (simp add: numeric_from_def nth_append)
next
  case False
  then have "j - i < length (drop i (cols df))" using assms by simp
  then show ?thesis
    using False assms by (simp add: numeric_from_def nth_append case_prod_unfold min_def)
qed

lemma length_numeric_from: "length (cols (numeric_from i nm df)) = length (cols df)"
  by (simp add: numeric_from_def)

lemma map_of_reindexed:
  "map_of (concat (map (\<lambda>df. map (\<lambda>(k, cs). (k, reindex n cs)) (cols df)) dfs)) name
     = map_option (reindex n) (map_of (concat (map cols dfs)) name)"
proof -
  have "concat (map (\<lambda>df. map (\<lambda>(k, cs). (k, reindex n cs)) (cols df)) dfs)
          = map (\<lambda>(k, cs). (k, reindex n cs)) (concat (map cols dfs))"
    by (simp add: map_concat comp_def)
  then show ?thesis by (simp add: map_of_map)
qed

lemma length_reindex: "length cs \<le> n \<Longrightarrow> length (reindex n cs) = n"
  by (simp add: reindex_def)

lemma creacion_builds_merge:
  "creacion_df_general_fbref nm a b c d e f g h i = merge_categorias nm [a, b, c, d, e, f, g, h, i]"
  "creacion_df_porteros_fbref nm a b = merge_categorias nm [a, b]"
  by (simp_all add: creacion_df_general_fbref_def creacion_df_porteros_fbref_def)

lemma concat_axis1_Inr:
  "dfs \<noteq> [] \<Longrightarrow>
     concat_axis1 dfs = Inr \<lparr>nrows = max_rows dfs,
       cols = concat (map (\<lambda>df. map (\<lambda>(k, cs). (k, reindex (max_rows dfs) cs)) (cols df)) dfs)\<rparr>"
  by (simp add: concat_axis1_def)

lemma merge_categorias_Inr:
  "dfs \<noteq> [] \<Longrightarrow>
     merge_categorias nm dfs =
       Inr (numeric_from 7 nm (drop_duplicated \<lparr>nrows = max_rows dfs,
         cols = concat (map (\<lambda>df. map (\<lambda>(k, cs). (k, reindex (max_rows dfs) cs)) (cols df)) dfs)\<rparr>))"
  by (simp add: merge_categorias_def concat_axis1_Inr)

lemma well_formed_numeric_from:
  assumes "well_formed df"
  shows "well_formed (numeric_from i nm df)"
proof -
  have all: "\<forall>(k, cs) \<in> set (cols df). length cs = nrows df"
    using assms by (simp add: well_formed_def list_all_iff)
  have "\<forall>(k, cs) \<in> set (take i (cols df)). length cs = nrows df"
    using all by (meson in_set_takeD)
  moreover have "\<forall>(k, cs) \<in> set (drop i (cols df)). length cs = nrows df"
    using all by (meson in_set_dropD)
  ultimately show ?thesis
    by (auto simp: well_formed_def list_all_iff numeric_from_def length_to_numeric)
qed

lemma well_formed_drop_duplicated:
  assumes "well_formed df"
  shows "well_formed (drop_duplicated df)"
proof -
  have "set (cols (drop_duplicated df)) \<subseteq> set (cols df)"
    by (simp add: cols_drop_duplicated first_occurrences_subset)
  then show ?thesis
    using assms by (auto simp: well_formed_def list_all_iff nrows_drop_duplicated)
qed

lemma well_formed_concat:
  assumes "list_all well_formed dfs"
  shows "well_formed \<lparr>nrows = max_rows dfs,
       cols = concat (map (\<lambda>df. map (\<lambda>(k, cs). (k, reindex (max_rows dfs) cs)) (cols df)) dfs)\<rparr>"
proof -
  have "length (reindex (max_rows dfs) cs) = max_rows dfs"
    if "df \<in> set dfs" "(k, cs) \<in> set (cols df)" for df k cs
  proof -
    have "well_formed df" using assms that(1) by (simp add: list_all_iff)
    then have "length cs = nrows df" using that(2) by (auto simp: well_formed_def list_all_iff)
    then have "length cs \<le> max_rows dfs" using max_rows_ge [OF that(1)] by simp
    then show ?thesis by (rule length_reindex)
  qed
  then show ?thesis
    by (auto simp: well_formed_def list_all_iff)
qed

lemma reindex_padding:
  assumes "list_all well_formed dfs"
  shows "concat (map (\<lambda>df. map (\<lambda>(k, cs). (k, reindex (max_rows dfs) cs)) (cols df)) dfs)
       = concat (map (\<lambda>df. map (\<lambda>(k, cs). (k, cs @ replicate (max_rows dfs - nrows df) NaN)) (cols df)) dfs)"
proof -
  have "map (\<lambda>(k, cs). (k, reindex (max_rows dfs) cs)) (cols df)
          = map (\<lambda>(k, cs). (k, cs @ replicate (max_rows dfs - nrows df) NaN)) (cols df)"
    if "df \<in> set dfs" for df
  proof -
    have "well_formed df" using assms that by (simp add: list_all_iff)
    then show ?thesis
      by (auto simp: well_formed_def list_all_iff reindex_def)
  qed
  then show ?thesis
    by (metis (mono_tags, lifting) map_eq_conv)
qed

lemma remdups_snoc: "remdups (ys @ [k]) = filter (\<lambda>x. x \<noteq> k) (remdups ys) @ [k]"
  by (induction ys) auto

lemma concat_columns: "map fst (concat (map cols dfs)) = concat (map columns dfs)"
  by (induction dfs) (simp_all add: columns_def)

lemma first_occurrences_names:
  "map fst (first_occurrences seen xs)
     = filter (\<lambda>k. k \<notin> set seen) (rev (remdups (rev (map fst xs))))"
proof (induction seen xs rule: first_occurrences.induct)
  case (1 seen)
  show ?case by simp
next
  case (2 seen k v xs)
  let ?R = "rev (remdups (rev (map fst xs)))"
  have "remdups (rev (map fst xs) @ [k]) = filter (\<lambda>x. x \<noteq> k) (remdups (rev (map fst xs))) @ [k]"
    by (rule remdups_snoc)
  then have R: "rev (remdups (rev (map fst ((k, v) # xs)))) = k # filter (\<lambda>x. x \<noteq> k) ?R"
    by (simp add: rev_filter)
  have f: "filter (\<lambda>x. x \<notin> set seen) (filter (\<lambda>x. x \<noteq> k) ?R)
             = filter (\<lambda>x. x \<notin> set (k # seen)) ?R"
    by (auto intro: filter_cong)
  show ?case
    unfolding R using 2 f by simp
qed

lemma max_rows_Max: "dfs \<noteq> [] \<Longrightarrow> max_rows dfs = Max (nrows ` set dfs)"
proof -
  assume "dfs \<noteq> []"
  then obtain d ds where d: "dfs = d # ds" by (cases dfs) auto
  have "max_rows dfs = fold max (map nrows ds) (nrows d)"
    unfolding d by (simp add: max_rows_def)
  also have "\<dots> = Max (set (nrows d # map nrows ds))"
    by (rule Max.set_eq_fold [symmetric])
  finally show ?thesis unfolding d by simp
qed

lemma merge_categorias_result:
  assumes "dfs \<noteq> []"
  shows "\<exists>r. merge_categorias nm dfs = Inr r
           \<and> nrows r = Max (nrows ` set dfs)
           \<and> columns r = rev (remdups (rev (concat (map columns dfs))))
           \<and> (\<forall>i < length (cols r).
                 \<exists>cs. map_of (concat (map cols dfs)) (fst (cols r ! i)) = Some cs
                    \<and> snd (cols r ! i) =
                        (if i < 7 then id else to_numeric nm) (cs @ replicate (nrows r - length cs) NaN))"
proof -
  let ?n = "max_rows dfs"
  let ?xs = "concat (map (\<lambda>df. map (\<lambda>(k, cs). (k, reindex ?n cs)) (cols df)) dfs)"
  let ?d = "drop_duplicated \<lparr>nrows = ?n, cols = ?xs\<rparr>"
  let ?r = "numeric_from 7 nm ?d"
  have m: "merge_categorias nm dfs = Inr ?r"
    using assms by (rule merge_categorias_Inr)
  have n: "nrows ?r = ?n"
    by (simp add: numeric_from_def nrows_drop_duplicated)
  have cd: "cols ?d = first_occurrences [] ?xs"
    by (simp add: cols_drop_duplicated)
  have xs: "?xs = map (\<lambda>(k, cs). (k, reindex ?n cs)) (concat (map cols dfs))"
    by (simp add: map_concat comp_def)
  have "map fst ?xs = map fst (concat (map cols dfs))"
    unfolding xs by (rule map_fst_relabel)
  also have "\<dots> = concat (map columns dfs)"
    by (rule concat_columns)
  finally have names: "map fst ?xs = concat (map columns dfs)" .
  have c: "columns ?r = rev (remdups (rev (concat (map columns dfs))))"
    unfolding columns_numeric_from
    by (simp add: columns_def cd first_occurrences_names names)
  have v: "\<exists>cs. map_of (concat (map cols dfs)) (fst (cols ?r ! i)) = Some cs
            \<and> snd (cols ?r ! i) =
                (if i < 7 then id else to_numeric nm) (cs @ replicate (nrows ?r - length cs) NaN)"
    if "i < length (cols ?r)" for i
  proof -
    have i: "i < length (cols ?d)"
      using that by (simp add: length_numeric_from)
    obtain k w where kw: "cols ?d ! i = (k, w)" by (cases "cols ?d ! i")
    have "(k, w) \<in> set (cols ?d)"
      using i kw by (metis nth_mem)
    moreover have "distinct (map fst (cols ?d))"
      by (simp add: cd first_occurrences_distinct)
    ultimately have "map_of (cols ?d) k = Some w"
      by (simp add: map_of_eq_Some_iff)
    then have "map_of ?xs k = Some w"
      by (simp add: cd first_occurrences_map_of)
    then obtain cs where cs: "map_of (concat (map cols dfs)) k = Some cs" "w = reindex ?n cs"
      unfolding map_of_reindexed by auto
    have "cols ?r ! i = (k, (if i < 7 then id else to_numeric nm) w)"
      using nth_numeric_from [OF i, of 7 nm] kw by simp
    then show ?thesis
      using cs unfolding n by (simp add: reindex_def)
  qed
  from m n c v show ?thesis
    unfolding max_rows_Max [OF assms] by blast
qed

text \<open>
  C1, as stated, fails: the goalkeeper build's merge of a table of two rows with a table
  of one row raises nothing; the result has two rows, the shorter table's column padded
  with a missing cell.
\<close>

theorem merge_unequal_rows_counterexample:
  "creacion_df_porteros_fbref plain_numerics
     (\<lparr>nrows = 2, cols = [(''Player'', [Str ''Ter Stegen'', Str ''Oblak'' :: number cell])]\<rparr>)
     (\<lparr>nrows = 1, cols = [(''Goles encajados'', [Str ''3'' :: number cell])]\<rparr>)
   = Inr (\<lparr>nrows = 2, cols = [(''Player'', [Str ''Ter Stegen'', Str ''Oblak'']),
                             (''Goles encajados'', [Str ''3'', NaN :: number cell])]\<rparr>)"
  by (simp add: creacion_df_porteros_fbref_def merge_categorias_def concat_axis1_def
      max_rows_def reindex_def drop_duplicated_def loc_columns_def columns_def numeric_from_def
      to_numeric_def read_number_def plain_numerics_def)

text \<open>
  C1, amended. Both builds end in the merge of their tables in source order, and the
  merge never reports a row-count error. For every non-empty list of tables whose
  columns have one cell per row, it returns a unified table whose row count is the
  largest input row count and whose columns all have that many cells. Every column of
  the result is a first column of its name among the inputs, none of its cells cut off,
  extended at the end with missing cells up to the common row count (and typed by
  \<open>pd.to_numeric\<close> from the eighth column on, under which the added cells stay missing).
\<close>

theorem merge_pads_unequal_row_counts:
  assumes "dfs \<noteq> []" and "list_all well_formed dfs"
  shows "creacion_df_general_fbref nm a b c d e f g h i
           = merge_categorias nm [a, b, c, d, e, f, g, h, i]
       \<and> creacion_df_porteros_fbref nm a b = merge_categorias nm [a, b]
       \<and> (\<exists>r. merge_categorias nm dfs = Inr r
            \<and> nrows r = Max (nrows ` set dfs)
            \<and> well_formed r
            \<and> columns r = rev (remdups (rev (concat (map columns dfs))))
            \<and> (\<forall>i < length (cols r).
                  \<exists>cs. map_of (concat (map cols dfs)) (fst (cols r ! i)) = Some cs
                     \<and> length cs \<le> nrows r
                     \<and> snd (cols r ! i) =
                         (if i < 7 then id else to_numeric nm)
                           (cs @ replicate (nrows r - length cs) NaN)
                     \<and> (\<forall>j. length cs \<le> j \<and> j < nrows r \<longrightarrow> snd (cols r ! i) ! j = NaN)))"
proof -
  obtain r where r: "merge_categorias nm dfs = Inr r"
      "nrows r = Max (nrows ` set dfs)"
      "columns r = rev (remdups (rev (concat (map columns dfs))))"
      "\<forall>i < length (cols r).
         \<exists>cs. map_of (concat (map cols dfs)) (fst (cols r ! i)) = Some cs
            \<and> snd (cols r ! i) =
                (if i < 7 then id else to_numeric nm) (cs @ replicate (nrows r - length cs) NaN)"
    using merge_categorias_result [OF assms(1), of nm] by blast
  let ?c = "\<lparr>nrows = max_rows dfs,
       cols = concat (map (\<lambda>df. map (\<lambda>(k, cs). (k, reindex (max_rows dfs) cs)) (cols df)) dfs)\<rparr>"
  have "merge_categorias nm dfs = Inr (numeric_from 7 nm (drop_duplicated ?c))"
    using assms(1) by (rule merge_categorias_Inr)
  moreover have "well_formed (numeric_from 7 nm (drop_duplicated ?c))"
    by (intro well_formed_numeric_from well_formed_drop_duplicated well_formed_concat assms(2))
  ultimately have wf: "well_formed r" using r(1) by simp
  have cells: "\<exists>cs. map_of (concat (map cols dfs)) (fst (cols r ! i)) = Some cs
                     \<and> length cs \<le> nrows r
                     \<and> snd (cols r ! i) =
                         (if i < 7 then id else to_numeric nm)
                           (cs @ replicate (nrows r - length cs) NaN)
                     \<and> (\<forall>j. length cs \<le> j \<and> j < nrows r \<longrightarrow> snd (cols r ! i) ! j = NaN)"
    if i: "i < length (cols r)" for i
  proof -
    obtain cs where cs: "map_of (concat (map cols dfs)) (fst (cols r ! i)) = Some cs"
        "snd (cols r ! i) =
           (if i < 7 then id else to_numeric nm) (cs @ replicate (nrows r - length cs) NaN)"
      using r(4) i by blast
    have "(fst (cols r ! i), cs) \<in> set (concat (map cols dfs))"
      using cs(1) by (rule map_of_SomeD)
    then obtain df where df: "df \<in> set dfs" "(fst (cols r ! i), cs) \<in> set (cols df)" by auto
    have "well_formed df" using assms(2) df(1) by (simp add: list_all_iff)
    then have "length cs = nrows df" using df(2) by (auto simp: well_formed_def list_all_iff)
    moreover have "nrows df \<le> Max (nrows ` set dfs)" using df(1) by simp
    ultimately have le: "length cs \<le> nrows r" using r(2) by simp
    let ?p = "cs @ replicate (nrows r - length cs) NaN"
    have pad: "?p ! j = NaN" "j < length ?p" if "length cs \<le> j" "j < nrows r" for j
      using that le by (simp_all add: nth_append)
    have "snd (cols r ! i) ! j = NaN" if "length cs \<le> j \<and> j < nrows r" for j
      using pad [of j] that to_numeric_missing [of j ?p nm] unfolding cs(2) by (cases "i < 7") auto
    with cs le show ?thesis by blast
  qed
  show ?thesis
    using r(1,2,3) wf cells by (simp add: creacion_builds_merge)
qed

theorem merge_pads_unequal_row_counts_witness:
  "[(\<lparr>nrows = 2, cols = [(''Player'', [Str ''Ter Stegen'', Str ''Oblak'' :: number cell])]\<rparr>), (\<lparr>nrows = 1, cols = [(''Goles encajados'', [Str ''3'' :: number cell])]\<rparr>)] \<noteq> []
   \<and> list_all well_formed [(\<lparr>nrows = 2, cols = [(''Player'', [Str ''Ter Stegen'', Str ''Oblak'' :: number cell])]\<rparr>), (\<lparr>nrows = 1, cols = [(''Goles encajados'', [Str ''3'' :: number cell])]\<rparr>)]
   \<and> creacion_df_porteros_fbref plain_numerics (\<lparr>nrows = 2, cols = [(''Player'', [Str ''Ter Stegen'', Str ''Oblak'' :: number cell])]\<rparr>) (\<lparr>nrows = 1, cols = [(''Goles encajados'', [Str ''3'' :: number cell])]\<rparr>) = Inr (\<lparr>nrows = 2, cols = [(''Player'', [Str ''Ter Stegen'', Str ''Oblak'']),
                             (''Goles encajados'', [Str ''3'', NaN :: number cell])]\<rparr>)
   \<and> well_formed (\<lparr>nrows = 2, cols = [(''Player'', [Str ''Ter Stegen'', Str ''Oblak'']),
                             (''Goles encajados'', [Str ''3'', NaN :: number cell])]\<rparr>)"
proof -
  let ?a = "\<lparr>nrows = 2, cols = [(''Player'', [Str ''Ter Stegen'', Str ''Oblak'' :: number cell])]\<rparr>"
  let ?b = "\<lparr>nrows = 1, cols = [(''Goles encajados'', [Str ''3'' :: number cell])]\<rparr>"
  let ?x = "\<lparr>nrows = 2, cols = [(''Player'', [Str ''Ter Stegen'', Str ''Oblak'']),
                             (''Goles encajados'', [Str ''3'', NaN :: number cell])]\<rparr>"
  have ne: "[?a, ?b] \<noteq> []" by simp
  have wf: "list_all well_formed [?a, ?b]" by (simp add: well_formed_def)
  have x: "creacion_df_porteros_fbref plain_numerics ?a ?b = Inr ?x"
    by (simp add: creacion_df_porteros_fbref_def merge_categorias_def concat_axis1_def
      max_rows_def reindex_def drop_duplicated_def loc_columns_def columns_def numeric_from_def
      to_numeric_def read_number_def plain_numerics_def)
  note t = merge_pads_unequal_row_counts [OF ne wf, of plain_numerics ?a ?b]
  from t have w: "creacion_df_porteros_fbref plain_numerics ?a ?b = merge_categorias plain_numerics [?a, ?b]"
    by blast
  have mx: "merge_categorias plain_numerics [?a, ?b] = Inr ?x"
    unfolding w [symmetric] by (rule x)
  from t obtain r where r: "merge_categorias plain_numerics [?a, ?b] = Inr r" "well_formed r"
    by blast
  have "Inr r = (Inr ?x :: exn + (string, number) dataframe)"
    using r(1) mx by (rule trans [OF sym])
  then have rx: "r = ?x" by (simp only: sum.inject)
  have "well_formed ?x" using r(2) unfolding rx .
  with ne wf x show ?thesis by (intro conjI)
qed

text \<open>
  C2, as stated, fails: the goalkeeper build merges two tables that both have a column
  \<open>Nota\<close>; the first one stands at the eighth place and holds the text \<open>first\<close>. The result
  has one column \<open>Nota\<close>, but it holds the missing value, not the first occurrence's
  value.
\<close>

theorem merge_first_values_counterexample:
  "creacion_df_porteros_fbref plain_numerics
     (\<lparr>nrows = 1, cols =
        [(''Player'', [Str ''Oblak'']), (''Nacionalidad'', [Str ''SVN'']), (''Posicion'', [Str ''GK'']),
         (''Equipo'', [Str ''Atletico'']), (''Competicion'', [Str ''La Liga'']), (''Edad'', [Str ''31'']),
         (''Nacimiento'', [Str ''1993'']), (''Nota'', [Str ''first'' :: number cell])]\<rparr>)
     (\<lparr>nrows = 1, cols = [(''Player'', [Str ''Oblak'']), (''Nota'', [Str ''second'' :: number cell])]\<rparr>)
   = Inr (\<lparr>nrows = 1, cols =
        [(''Player'', [Str ''Oblak'']), (''Nacionalidad'', [Str ''SVN'']), (''Posicion'', [Str ''GK'']),
         (''Equipo'', [Str ''Atletico'']), (''Competicion'', [Str ''La Liga'']), (''Edad'', [Str ''31'']),
         (''Nacimiento'', [Str ''1993'']), (''Nota'', [NaN :: number cell])]\<rparr>)"
  by (simp add: creacion_df_porteros_fbref_def merge_categorias_def concat_axis1_def
      max_rows_def reindex_def drop_duplicated_def loc_columns_def columns_def numeric_from_def
      to_numeric_def read_number_def plain_numerics_def)

text \<open>
  C2, amended. Both builds end in the merge of their tables in source order. For every
  non-empty list of tables, the names of the unified result are the names of the inputs
  in the order of their first occurrence, each once, and the one column of a name is
  built from the first column of that name in input order: it holds that column's cells
  (aligned to the common row index, which adds nothing when the row counts are equal) as
  they are when it stands among the first seven columns of the result, and their
  \<open>pd.to_numeric\<close> coercion from the eighth column on. Every later column of the name is
  dropped.
\<close>

theorem merge_keeps_first_duplicate:
  assumes "dfs \<noteq> []"
  shows "creacion_df_general_fbref nm a b c d e f g h i
           = merge_categorias nm [a, b, c, d, e, f, g, h, i]
       \<and> creacion_df_porteros_fbref nm a b = merge_categorias nm [a, b]
       \<and> (\<exists>r. merge_categorias nm dfs = Inr r
            \<and> distinct (columns r)
            \<and> columns r = rev (remdups (rev (concat (map columns dfs))))
            \<and> (\<forall>i < length (cols r).
                  \<exists>cs. map_of (concat (map cols dfs)) (fst (cols r ! i)) = Some cs
                     \<and> snd (cols r ! i) =
                         (if i < 7 then id else to_numeric nm)
                           (cs @ replicate (nrows r - length cs) NaN)
                     \<and> (list_all (\<lambda>df. well_formed df \<and> nrows df = n) dfs \<longrightarrow>
                          snd (cols r ! i) = (if i < 7 then cs else to_numeric nm cs))))"
proof -
  obtain r where r: "merge_categorias nm dfs = Inr r"
      "nrows r = Max (nrows ` set dfs)"
      "columns r = rev (remdups (rev (concat (map columns dfs))))"
      "\<forall>i < length (cols r).
         \<exists>cs. map_of (concat (map cols dfs)) (fst (cols r ! i)) = Some cs
            \<and> snd (cols r ! i) =
                (if i < 7 then id else to_numeric nm) (cs @ replicate (nrows r - length cs) NaN)"
    using merge_categorias_result [OF assms(1), of nm] by blast
  have dist: "distinct (columns r)"
    unfolding r(3) by simp
  have cells: "\<exists>cs. map_of (concat (map cols dfs)) (fst (cols r ! i)) = Some cs
                     \<and> snd (cols r ! i) =
                         (if i < 7 then id else to_numeric nm)
                           (cs @ replicate (nrows r - length cs) NaN)
                     \<and> (list_all (\<lambda>df. well_formed df \<and> nrows df = n) dfs \<longrightarrow>
                          snd (cols r ! i) = (if i < 7 then cs else to_numeric nm cs))"
    if i: "i < length (cols r)" for i
  proof -
    obtain cs where cs: "map_of (concat (map cols dfs)) (fst (cols r ! i)) = Some cs"
        "snd (cols r ! i) =
           (if i < 7 then id else to_numeric nm) (cs @ replicate (nrows r - length cs) NaN)"
      using r(4) i by blast
    have same: "snd (cols r ! i) = (if i < 7 then cs else to_numeric nm cs)"
      if all: "list_all (\<lambda>df. well_formed df \<and> nrows df = n) dfs"
    proof -
      have "(fst (cols r ! i), cs) \<in> set (concat (map cols dfs))"
        using cs(1) by (rule map_of_SomeD)
      then obtain df where df: "df \<in> set dfs" "(fst (cols r ! i), cs) \<in> set (cols df)" by auto
      then have len: "length cs = n"
        using all by (auto simp: list_all_iff well_formed_def)
      have "nrows ` set dfs = {n}"
        using all assms by (cases dfs) (auto simp: list_all_iff)
      then have "nrows r = n" using r(2) by simp
      with len show ?thesis unfolding cs(2) by simp
    qed
    from cs same show ?thesis by blast
  qed
  show ?thesis
    using r(1,3) dist cells by (simp add: creacion_builds_merge)
qed

theorem merge_keeps_first_duplicate_witness:
  "[(\<lparr>nrows = 1, cols =
        [(''Player'', [Str ''Oblak'']), (''Nacionalidad'', [Str ''SVN'']), (''Posicion'', [Str ''GK'']),
         (''Equipo'', [Str ''Atletico'']), (''Competicion'', [Str ''La Liga'']), (''Edad'', [Str ''31'']),
         (''Nacimiento'', [Str ''1993'']), (''Nota'', [Str ''first'' :: number cell])]\<rparr>), (\<lparr>nrows = 1, cols = [(''Player'', [Str ''Oblak'']), (''Nota'', [Str ''second'' :: number cell])]\<rparr>)] \<noteq> []
   \<and> creacion_df_porteros_fbref plain_numerics (\<lparr>nrows = 1, cols =
        [(''Player'', [Str ''Oblak'']), (''Nacionalidad'', [Str ''SVN'']), (''Posicion'', [Str ''GK'']),
         (''Equipo'', [Str ''Atletico'']), (''Competicion'', [Str ''La Liga'']), (''Edad'', [Str ''31'']),
         (''Nacimiento'', [Str ''1993'']), (''Nota'', [Str ''first'' :: number cell])]\<rparr>) (\<lparr>nrows = 1, cols = [(''Player'', [Str ''Oblak'']), (''Nota'', [Str ''second'' :: number cell])]\<rparr>) = Inr (\<lparr>nrows = 1, cols =
        [(''Player'', [Str ''Oblak'']), (''Nacionalidad'', [Str ''SVN'']), (''Posicion'', [Str ''GK'']),
         (''Equipo'', [Str ''Atletico'']), (''Competicion'', [Str ''La Liga'']), (''Edad'', [Str ''31'']),
         (''Nacimiento'', [Str ''1993'']), (''Nota'', [NaN :: number cell])]\<rparr>)
   \<and> distinct (columns (\<lparr>nrows = 1, cols =
        [(''Player'', [Str ''Oblak'']), (''Nacionalidad'', [Str ''SVN'']), (''Posicion'', [Str ''GK'']),
         (''Equipo'', [Str ''Atletico'']), (''Competicion'', [Str ''La Liga'']), (''Edad'', [Str ''31'']),
         (''Nacimiento'', [Str ''1993'']), (''Nota'', [NaN :: number cell])]\<rparr>))"
proof -
  let ?a = "\<lparr>nrows = 1, cols =
        [(''Player'', [Str ''Oblak'']), (''Nacionalidad'', [Str ''SVN'']), (''Posicion'', [Str ''GK'']),
         (''Equipo'', [Str ''Atletico'']), (''Competicion'', [Str ''La Liga'']), (''Edad'', [Str ''31'']),
         (''Nacimiento'', [Str ''1993'']), (''Nota'', [Str ''first'' :: number cell])]\<rparr>"
  let ?b = "\<lparr>nrows = 1, cols = [(''Player'', [Str ''Oblak'']), (''Nota'', [Str ''second'' :: number cell])]\<rparr>"
  let ?x = "\<lparr>nrows = 1, cols =
        [(''Player'', [Str ''Oblak'']), (''Nacionalidad'', [Str ''SVN'']), (''Posicion'', [Str ''GK'']),
         (''Equipo'', [Str ''Atletico'']), (''Competicion'', [Str ''La Liga'']), (''Edad'', [Str ''31'']),
         (''Nacimiento'', [Str ''1993'']), (''Nota'', [NaN :: number cell])]\<rparr>"
  have ne: "[?a, ?b] \<noteq> []" by simp
  have x: "creacion_df_porteros_fbref plain_numerics ?a ?b = Inr ?x"
    by (simp add: creacion_df_porteros_fbref_def merge_categorias_def concat_axis1_def
      max_rows_def reindex_def drop_duplicated_def loc_columns_def columns_def numeric_from_def
      to_numeric_def read_number_def plain_numerics_def)
  note t = merge_keeps_first_duplicate [OF ne, of plain_numerics ?a ?b]
  from t have w: "creacion_df_porteros_fbref plain_numerics ?a ?b = merge_categorias plain_numerics [?a, ?b]"
    by blast
  have mx: "merge_categorias plain_numerics [?a, ?b] = Inr ?x"
    unfolding w [symmetric] by (rule x)
  from t obtain r where r: "merge_categorias plain_numerics [?a, ?b] = Inr r" "distinct (columns r)"
    by blast
  have "Inr r = (Inr ?x :: exn + (string, number) dataframe)"
    using r(1) mx by (rule trans [OF sym])
  then have rx: "r = ?x" by (simp only: sum.inject)
  have "distinct (columns ?x)" using r(2) unfolding rx .
  with ne x show ?thesis by (intro conjI)
qed

section \<open>Numeric coercion: properties\<close>

lemma sub_all_set: "set (sub_all pat repl s) = (set s - {pat}) \<union> (if pat \<in> set s then set repl else {})"
  by (induction s) (auto simp: sub_all_def)

lemma sub_all_absent: "pat \<notin> set s \<Longrightarrow> sub_all pat repl s = s"
  by (induction s) (auto simp: sub_all_def)

lemma cleaned_text:
  "CHR '','' \<notin> set (sub_all (CHR ''%'') [] (sub_all (CHR '','') ''.'' s))
   \<and> CHR ''%'' \<notin> set (sub_all (CHR ''%'') [] (sub_all (CHR '','') ''.'' s))"
  by (auto simp: sub_all_set split: if_splits)

lemma filter_eq_index: "loc < n \<Longrightarrow> filter (\<lambda>i. i = loc) [0..<n] = [loc]"
proof (induction n)
  case 0
  then show ?case by simp
next
  case (Suc n)
  show ?case
  proof (cases "loc = n")
    case True
    have "filter (\<lambda>i. i = n) [0..<n] = []" by (auto simp: filter_empty_conv)
    with True show ?thesis by simp
  next
    case False
    with Suc show ?thesis by simp
  qed
qed

lemma get_loc_distinct:
  assumes "distinct ks" "loc < length ks" "ks ! loc = name"
  shows "get_loc ks name = Inr loc"
proof -
  have "filter (\<lambda>i. ks ! i = name) [0..<length ks] = filter (\<lambda>i. i = loc) [0..<length ks]"
    using assms by (intro filter_cong) (auto simp: nth_eq_iff_index_eq)
  also have "\<dots> = [loc]" using assms(2) by (rule filter_eq_index)
  finally show ?thesis by (simp add: get_loc_def)
qed

lemma filter_label_distinct:
  "distinct (map fst xs) \<Longrightarrow> (k, c) \<in> set xs \<Longrightarrow> filter (\<lambda>(l, c'). l = k) xs = [(k, c)]"
proof (induction xs)
  case Nil
  then show ?case by simp
next
  case (Cons x xs)
  obtain l c' where x: "x = (l, c')" by (cases x)
  show ?case
  proof (cases "l = k")
    case True
    then have "k \<notin> fst ` set xs" using Cons.prems(1) x by simp
    then have "filter (\<lambda>(l, c'). l = k) xs = []" "(k, c) \<notin> set xs"
      by (force simp: filter_empty_conv)+
    with True x Cons.prems(2) show ?thesis by simp
  next
    case False
    with Cons x show ?thesis by simp
  qed
qed

lemma label_index_unique:
  "distinct (map fst xs) \<Longrightarrow> i < length xs \<Longrightarrow> j < length xs \<Longrightarrow>
     fst (xs ! i) = fst (xs ! j) \<Longrightarrow> i = j"
  using nth_eq_iff_index_eq [of "map fst xs" i j] by simp

lemma assign_label_single:
  "assign_label ys k [v] = Inr (map (\<lambda>(l, c). if l = k then (l, v) else (l, c)) ys)"
  by (simp add: assign_label_def)

lemma assign_columns_distinct:
  assumes "distinct labels"
  shows "set ks \<subseteq> set labels \<Longrightarrow>
     fold (\<lambda>(k1, k2) acc.
             case acc of
               Inl e \<Rightarrow> Inl e
             | Inr ys \<Rightarrow> assign_label ys k1
                          (map snd (filter (\<lambda>(l, c). l = k2) (map (\<lambda>k. (k, g k)) labels))))
          (zip ks ks) (Inr ys)
       = Inr (map (\<lambda>(l, c). if l \<in> set ks then (l, g l) else (l, c)) ys)"
proof (induction ks arbitrary: ys)
  case Nil
  show ?case by (simp add: case_prod_unfold)
next
  case (Cons k ks)
  let ?F = "\<lambda>(k1, k2) acc.
             case acc of
               Inl e \<Rightarrow> Inl e
             | Inr ys \<Rightarrow> assign_label ys k1
                          (map snd (filter (\<lambda>(l, c). l = k2) (map (\<lambda>k. (k, g k)) labels)))"
  let ?ys = "map (\<lambda>(l, c). if l = k then (l, g k) else (l, c)) ys"
  have "(k, g k) \<in> set (map (\<lambda>k. (k, g k)) labels)"
    using Cons.prems by auto
  moreover have "distinct (map fst (map (\<lambda>k. (k, g k)) labels))"
    using assms by (simp add: comp_def)
  ultimately have one: "filter (\<lambda>(l, c). l = k) (map (\<lambda>k. (k, g k)) labels) = [(k, g k)]"
    by (rule filter_label_distinct [rotated])
  have step: "?F (k, k) (Inr ys) = Inr ?ys"
    unfolding prod.case sum.case one by (simp add: assign_label_single)
  have "set ks \<subseteq> set labels" using Cons.prems by simp
  note ih = Cons.IH [OF this, of ?ys]
  have "fold ?F (zip (k # ks) (k # ks)) (Inr ys) = fold ?F (zip ks ks) (?F (k, k) (Inr ys))"
    by (simp only: zip_Cons_Cons fold_Cons comp_apply)
  also have "\<dots> = fold ?F (zip ks ks) (Inr ?ys)"
    by (simp only: step)
  also note ih
  also have "map (\<lambda>(l, c). if l \<in> set ks then (l, g l) else (l, c)) ?ys
               = map (\<lambda>(l, c). if l \<in> set (k # ks) then (l, g l) else (l, c)) ys"
    by (auto simp: case_prod_unfold)
  finally show ?case .
qed

lemma select_labels_distinct:
  assumes "distinct (map fst xs)" "set labels \<subseteq> fst ` set xs"
  shows "select_labels xs labels = map (\<lambda>k. (k, the (map_of xs k))) labels"
proof -
  have "filter (\<lambda>(l, c). l = k) xs = [(k, the (map_of xs k))]" if "k \<in> set labels" for k
  proof -
    have "k \<in> fst ` set xs" using that assms(2) by blast
    then obtain c where c: "(k, c) \<in> set xs" by auto
    then have "map_of xs k = Some c" using assms(1) by (simp add: map_of_eq_Some_iff)
    with c assms(1) show ?thesis by (simp add: filter_label_distinct)
  qed
  then have "map (\<lambda>k. filter (\<lambda>(l, c). l = k) xs) labels
               = map (\<lambda>k. [(k, the (map_of xs k))]) labels"
    by (intro map_cong) auto
  then show ?thesis by (simp add: select_labels_def comp_def)
    (induction labels, simp_all)
qed

lemma coerce_span_distinct:
  assumes d: "distinct (columns df)"
  shows "\<exists>r. coerce_span in_span nm df = Inr r
           \<and> nrows r = nrows df
           \<and> columns r = columns df
           \<and> (\<forall>i < length (cols df).
                 snd (cols r ! i) =
                   (if in_span i then coerce_column nm (snd (cols df ! i)) else snd (cols df ! i)))"
proof -
  let ?xs = "cols df"
  let ?S = "filter in_span [0..<length ?xs]"
  let ?K = "map (\<lambda>i. fst (?xs ! i)) ?S"
  let ?g = "\<lambda>k. coerce_column nm (the (map_of ?xs k))"
  have dx: "distinct (map fst ?xs)" using d by (simp add: columns_def)
  have inj: "inj_on (\<lambda>i. fst (?xs ! i)) (set ?S)"
  proof (rule inj_onI)
    fix i j assume a: "i \<in> set ?S" "j \<in> set ?S" "fst (?xs ! i) = fst (?xs ! j)"
    have "i < length ?xs" "j < length ?xs" using a by auto
    with dx show "i = j" using a(3) by (rule label_index_unique)
  qed
  have dK: "distinct ?K" using inj by (simp add: distinct_map)
  have sub: "set ?K \<subseteq> fst ` set ?xs" by force
  have sel: "select_labels ?xs ?K = map (\<lambda>k. (k, the (map_of ?xs k))) ?K"
    using dx sub by (rule select_labels_distinct)
  have conv: "map (\<lambda>(l, c). (l, coerce_column nm c)) (select_labels ?xs ?K) = map (\<lambda>k. (k, ?g k)) ?K"
    unfolding sel by (simp add: comp_def)
  have fst_conv: "map fst (map (\<lambda>k. (k, ?g k)) ?K) = ?K"
    by (simp add: comp_def)
  let ?ys = "map (\<lambda>(l, c). if l \<in> set ?K then (l, ?g l) else (l, c)) ?xs"
  have asg: "assign_columns ?xs ?K (map (\<lambda>k. (k, ?g k)) ?K) = Inr ?ys"
    unfolding assign_columns_def fst_conv
    by (rule assign_columns_distinct [OF dK subset_refl])
  have r: "coerce_span in_span nm df = Inr (df\<lparr>cols := ?ys\<rparr>)"
    unfolding coerce_span_def Let_def conv asg by simp
  have cells: "snd (?ys ! i) = (if in_span i then coerce_column nm (snd (?xs ! i)) else snd (?xs ! i))"
    and label: "fst (?ys ! i) = fst (?xs ! i)"
    if i: "i < length ?xs" for i
  proof -
    obtain l c where lc: "?xs ! i = (l, c)" by (cases "?xs ! i")
    then have mem: "(l, c) \<in> set ?xs" using i by (metis nth_mem)
    then have look: "map_of ?xs l = Some c" using dx by (simp add: map_of_eq_Some_iff)
    have "l \<in> set ?K \<longleftrightarrow> in_span i"
    proof
      assume "l \<in> set ?K"
      then obtain j where j: "j < length ?xs" "in_span j" "fst (?xs ! j) = l" by auto
      then have "fst (?xs ! j) = fst (?xs ! i)" using lc by simp
      with dx j(1) i have "j = i" by (rule label_index_unique)
      with j show "in_span i" by simp
    next
      assume "in_span i"
      then have "i \<in> set ?S" using i by simp
      then have "fst (?xs ! i) \<in> set ?K" unfolding set_map by (rule imageI)
      then show "l \<in> set ?K" using lc by simp
    qed
    then show "snd (?ys ! i) = (if in_span i then coerce_column nm (snd (?xs ! i)) else snd (?xs ! i))"
      and "fst (?ys ! i) = fst (?xs ! i)"
      using i lc look by simp_all
  qed
  have "columns (df\<lparr>cols := ?ys\<rparr>) = columns df"
    by (auto simp: columns_def case_prod_unfold)
  with r cells show ?thesis by auto
qed

lemma coerce_column_explicit:
  "coerce_column nm cs =
     (let rs = (map (\<lambda>c. case c of
                            Str s \<Rightarrow> (case parse_number nm (sub_all (CHR ''%'') [] (sub_all (CHR '','') ''.'' s)) of
                                       Some v \<Rightarrow> Num v | None \<Rightarrow> NaN)
                          | Num v \<Rightarrow> Num v
                          | NaN \<Rightarrow> NaN) cs)
      in if list_all (\<lambda>r. case r of Num v \<Rightarrow> is_int64 nm v | _ \<Rightarrow> False) rs then rs
         else map (\<lambda>r. case r of Num v \<Rightarrow> Num (as_float64 nm v) | _ \<Rightarrow> NaN) rs)"
proof -
  have eq: "map (read_number nm) (map regex_replace cs) = (map (\<lambda>c. case c of
                            Str s \<Rightarrow> (case parse_number nm (sub_all (CHR ''%'') [] (sub_all (CHR '','') ''.'' s)) of
                                       Some v \<Rightarrow> Num v | None \<Rightarrow> NaN)
                          | Num v \<Rightarrow> Num v
                          | NaN \<Rightarrow> NaN) cs)"
    by (induction cs) (auto simp: read_number_def regex_replace_def split: cell.splits)
  show ?thesis
    unfolding coerce_column_def to_numeric_def eq by (rule refl)
qed

lemma coerce_column_rejected:
  assumes "j < length cs" "cs ! j = Str s" "parse_number nm (sub_all (CHR ''%'') [] (sub_all (CHR '','') ''.'' s)) = None"
  shows "coerce_column nm cs ! j = NaN"
  using assms
  by (simp add: coerce_column_def to_numeric_def Let_def read_number_def regex_replace_def)

text \<open>
  C7, as stated, fails for the outfield function, whose span stops two columns before
  the end: in a table with the columns \<open>Goles\<close>, \<open>% Paradas\<close> and \<open>Minutos\<close> after the
  boundary column \<open>Competicion\<close>, only \<open>Goles\<close> is coerced; the cells \<open>80,5%\<close> and \<open>n/a\<close>
  of \<open>% Paradas\<close> are returned as they were.
\<close>

theorem numeric_span_counterexample:
  "convertir_columnas_numericas_jugadores plain_numerics
     \<lparr>nrows = 2, cols =
       [(''Player'', [Str ''Ter Stegen'', Str ''Oblak'']),
        (''Competicion'', [Str ''La Liga'', Str ''La Liga'']),
        (''Goles'', [Str ''3'', Str ''3'']),
        (''% Paradas'', [Str ''80,5%'', Str ''n/a'']),
        (''Minutos'', [Str ''3'', Str ''3''])]\<rparr> ''Competicion''
   = Inr \<lparr>nrows = 2, cols =
       [(''Player'', [Str ''Ter Stegen'', Str ''Oblak'']),
        (''Competicion'', [Str ''La Liga'', Str ''La Liga'']),
        (''Goles'', [Num (Integer 3), Num (Integer 3)]),
        (''% Paradas'', [Str ''80,5%'', Str ''n/a'']),
        (''Minutos'', [Str ''3'', Str ''3''])]\<rparr>"
  by code_simp

text \<open>
  C7, amended. Given a table with distinct labels in which the boundary column stands at
  position \<open>loc\<close>, both conversion functions return a table with the same rows and the
  same labels, in which every column of the coercion span is coerced and every other
  column is as before; the span is, for the goalkeeper function, the columns after the
  boundary column and, for the outfield function, those columns less the last two.
  Coercing a column replaces in every text cell every comma with a dot, then removes
  every percent sign, then reads the cell as a number: a text that still does not parse
  becomes the missing value, not a number; numbers and missing cells stay (a number is
  stored as a float unless the whole column reads as integers). No cell makes the
  conversion fail or changes the number of cells of its column.
\<close>

theorem numeric_coercion_cells:
  assumes "distinct (columns df)" and "loc < length (columns df)" and "columns df ! loc = boundary"
  shows "(\<exists>g. convertir_columnas_numericas_goalkeepers nm df boundary = Inr g
            \<and> nrows g = nrows df \<and> columns g = columns df
            \<and> (\<forall>i < length (cols df). snd (cols g ! i) =
                  (if loc < i then coerce_column nm (snd (cols df ! i))
                   else snd (cols df ! i))))
       \<and> (\<exists>j. convertir_columnas_numericas_jugadores nm df boundary = Inr j
            \<and> nrows j = nrows df \<and> columns j = columns df
            \<and> (\<forall>i < length (cols df). snd (cols j ! i) =
                  (if loc < i \<and> i + 2 < length (cols df)
                   then coerce_column nm (snd (cols df ! i))
                   else snd (cols df ! i))))
       \<and> coerce_column nm cs =
           (let rs = (map (\<lambda>c. case c of
                            Str s \<Rightarrow> (case parse_number nm (sub_all (CHR ''%'') [] (sub_all (CHR '','') ''.'' s)) of
                                       Some v \<Rightarrow> Num v | None \<Rightarrow> NaN)
                          | Num v \<Rightarrow> Num v
                          | NaN \<Rightarrow> NaN) cs)
            in if list_all (\<lambda>r. case r of Num v \<Rightarrow> is_int64 nm v | _ \<Rightarrow> False) rs then rs
               else map (\<lambda>r. case r of Num v \<Rightarrow> Num (as_float64 nm v) | _ \<Rightarrow> NaN) rs)
       \<and> length (coerce_column nm cs) = length cs
       \<and> (\<forall>j < length cs. \<forall>t. cs ! j = Str t
              \<and> parse_number nm (sub_all (CHR ''%'') [] (sub_all (CHR '','') ''.'' t)) = None \<longrightarrow>
            coerce_column nm cs ! j = NaN)
       \<and> CHR '','' \<notin> set (sub_all (CHR ''%'') [] (sub_all (CHR '','') ''.'' s))
       \<and> CHR ''%'' \<notin> set (sub_all (CHR ''%'') [] (sub_all (CHR '','') ''.'' s))"
proof -
  have loc: "get_loc (columns df) boundary = Inr loc"
    using assms by (rule get_loc_distinct)
  have g: "convertir_columnas_numericas_goalkeepers nm df boundary
             = coerce_span (\<lambda>i. loc + 1 \<le> i) nm df"
    by (simp add: convertir_columnas_numericas_goalkeepers_def loc)
  have j: "convertir_columnas_numericas_jugadores nm df boundary
             = coerce_span (\<lambda>i. loc + 1 \<le> i \<and> i < length (cols df) - 2) nm df"
    by (simp add: convertir_columnas_numericas_jugadores_def loc)
  have sg: "(\<lambda>i. loc + 1 \<le> i) = (\<lambda>i. loc < i)"
    by (rule ext) auto
  have sj: "(\<lambda>i. loc + 1 \<le> i \<and> i < length (cols df) - 2) = (\<lambda>i. loc < i \<and> i + 2 < length (cols df))"
    by (rule ext) auto
  have 1: "\<exists>g. convertir_columnas_numericas_goalkeepers nm df boundary = Inr g
            \<and> nrows g = nrows df \<and> columns g = columns df
            \<and> (\<forall>i < length (cols df). snd (cols g ! i) =
                  (if loc < i then coerce_column nm (snd (cols df ! i))
                   else snd (cols df ! i)))"
    unfolding g sg by (rule coerce_span_distinct [OF assms(1)])
  have 2: "\<exists>j. convertir_columnas_numericas_jugadores nm df boundary = Inr j
            \<and> nrows j = nrows df \<and> columns j = columns df
            \<and> (\<forall>i < length (cols df). snd (cols j ! i) =
                  (if loc < i \<and> i + 2 < length (cols df)
                   then coerce_column nm (snd (cols df ! i))
                   else snd (cols df ! i)))"
    unfolding j sj by (rule coerce_span_distinct [OF assms(1)])
  have 3: "length (coerce_column nm cs) = length cs"
    by (simp add: coerce_column_def length_to_numeric)
  have 4: "\<forall>j < length cs. \<forall>t. cs ! j = Str t
              \<and> parse_number nm (sub_all (CHR ''%'') [] (sub_all (CHR '','') ''.'' t)) = None \<longrightarrow>
            coerce_column nm cs ! j = NaN"
    using coerce_column_rejected by blast
  from 1 2 coerce_column_explicit [of nm cs] 3 4 cleaned_text [of s]
  show ?thesis by (intro conjI) blast+
qed

theorem numeric_coercion_cells_witness:
  "distinct (columns (\<lparr>nrows = 2, cols =
       [(''Player'', [Str ''Ter Stegen'', Str ''Oblak'']),
        (''Competicion'', [Str ''La Liga'', Str ''La Liga'']),
        (''Goles encajados'', [Str ''3'', Str ''3'']),
        (''% Paradas'', [Str ''80,5%'', Str ''n/a'']),
        (''Posicion_principal'', [Str ''Goalkeeper'', Str ''Goalkeeper'']),
        (''Posicion_2'', [Str [], Str [] :: number cell])]\<rparr>))
   \<and> 1 < length (columns (\<lparr>nrows = 2, cols =
       [(''Player'', [Str ''Ter Stegen'', Str ''Oblak'']),
        (''Competicion'', [Str ''La Liga'', Str ''La Liga'']),
        (''Goles encajados'', [Str ''3'', Str ''3'']),
        (''% Paradas'', [Str ''80,5%'', Str ''n/a'']),
        (''Posicion_principal'', [Str ''Goalkeeper'', Str ''Goalkeeper'']),
        (''Posicion_2'', [Str [], Str [] :: number cell])]\<rparr>))
   \<and> columns (\<lparr>nrows = 2, cols =
       [(''Player'', [Str ''Ter Stegen'', Str ''Oblak'']),
        (''Competicion'', [Str ''La Liga'', Str ''La Liga'']),
        (''Goles encajados'', [Str ''3'', Str ''3'']),
        (''% Paradas'', [Str ''80,5%'', Str ''n/a'']),
        (''Posicion_principal'', [Str ''Goalkeeper'', Str ''Goalkeeper'']),
        (''Posicion_2'', [Str [], Str [] :: number cell])]\<rparr>) ! 1 = ''Competicion''
   \<and> convertir_columnas_numericas_goalkeepers plain_numerics (\<lparr>nrows = 2, cols =
       [(''Player'', [Str ''Ter Stegen'', Str ''Oblak'']),
        (''Competicion'', [Str ''La Liga'', Str ''La Liga'']),
        (''Goles encajados'', [Str ''3'', Str ''3'']),
        (''% Paradas'', [Str ''80,5%'', Str ''n/a'']),
        (''Posicion_principal'', [Str ''Goalkeeper'', Str ''Goalkeeper'']),
        (''Posicion_2'', [Str [], Str [] :: number cell])]\<rparr>) ''Competicion'' = Inr (\<lparr>nrows = 2, cols =
       [(''Player'', [Str ''Ter Stegen'', Str ''Oblak'']),
        (''Competicion'', [Str ''La Liga'', Str ''La Liga'']),
        (''Goles encajados'', [Num (Integer 3), Num (Integer 3)]),
        (''% Paradas'', [Num (Decimal 805 1), NaN]),
        (''Posicion_principal'', [NaN, NaN]),
        (''Posicion_2'', [NaN, NaN :: number cell])]\<rparr>)
   \<and> convertir_columnas_numericas_jugadores plain_numerics (\<lparr>nrows = 2, cols =
       [(''Player'', [Str ''Ter Stegen'', Str ''Oblak'']),
        (''Competicion'', [Str ''La Liga'', Str ''La Liga'']),
        (''Goles encajados'', [Str ''3'', Str ''3'']),
        (''% Paradas'', [Str ''80,5%'', Str ''n/a'']),
        (''Posicion_principal'', [Str ''Goalkeeper'', Str ''Goalkeeper'']),
        (''Posicion_2'', [Str [], Str [] :: number cell])]\<rparr>) ''Competicion'' = Inr (\<lparr>nrows = 2, cols =
       [(''Player'', [Str ''Ter Stegen'', Str ''Oblak'']),
        (''Competicion'', [Str ''La Liga'', Str ''La Liga'']),
        (''Goles encajados'', [Num (Integer 3), Num (Integer 3)]),
        (''% Paradas'', [Num (Decimal 805 1), NaN]),
        (''Posicion_principal'', [Str ''Goalkeeper'', Str ''Goalkeeper'']),
        (''Posicion_2'', [Str [], Str [] :: number cell])]\<rparr>)
   \<and> columns (\<lparr>nrows = 2, cols =
       [(''Player'', [Str ''Ter Stegen'', Str ''Oblak'']),
        (''Competicion'', [Str ''La Liga'', Str ''La Liga'']),
        (''Goles encajados'', [Num (Integer 3), Num (Integer 3)]),
        (''% Paradas'', [Num (Decimal 805 1), NaN]),
        (''Posicion_principal'', [NaN, NaN]),
        (''Posicion_2'', [NaN, NaN :: number cell])]\<rparr>) = [''Player'', ''Competicion'', ''Goles encajados'', ''% Paradas'',
                       ''Posicion_principal'', ''Posicion_2'']
   \<and> columns (\<lparr>nrows = 2, cols =
       [(''Player'', [Str ''Ter Stegen'', Str ''Oblak'']),
        (''Competicion'', [Str ''La Liga'', Str ''La Liga'']),
        (''Goles encajados'', [Num (Integer 3), Num (Integer 3)]),
        (''% Paradas'', [Num (Decimal 805 1), NaN]),
        (''Posicion_principal'', [Str ''Goalkeeper'', Str ''Goalkeeper'']),
        (''Posicion_2'', [Str [], Str [] :: number cell])]\<rparr>) = [''Player'', ''Competicion'', ''Goles encajados'', ''% Paradas'',
                       ''Posicion_principal'', ''Posicion_2'']"
proof -
  let ?df = "\<lparr>nrows = 2, cols =
       [(''Player'', [Str ''Ter Stegen'', Str ''Oblak'']),
        (''Competicion'', [Str ''La Liga'', Str ''La Liga'']),
        (''Goles encajados'', [Str ''3'', Str ''3'']),
        (''% Paradas'', [Str ''80,5%'', Str ''n/a'']),
        (''Posicion_principal'', [Str ''Goalkeeper'', Str ''Goalkeeper'']),
        (''Posicion_2'', [Str [], Str [] :: number cell])]\<rparr>"
  let ?g = "\<lparr>nrows = 2, cols =
       [(''Player'', [Str ''Ter Stegen'', Str ''Oblak'']),
        (''Competicion'', [Str ''La Liga'', Str ''La Liga'']),
        (''Goles encajados'', [Num (Integer 3), Num (Integer 3)]),
        (''% Paradas'', [Num (Decimal 805 1), NaN]),
        (''Posicion_principal'', [NaN, NaN]),
        (''Posicion_2'', [NaN, NaN :: number cell])]\<rparr>"
  let ?j = "\<lparr>nrows = 2, cols =
       [(''Player'', [Str ''Ter Stegen'', Str ''Oblak'']),
        (''Competicion'', [Str ''La Liga'', Str ''La Liga'']),
        (''Goles encajados'', [Num (Integer 3), Num (Integer 3)]),
        (''% Paradas'', [Num (Decimal 805 1), NaN]),
        (''Posicion_principal'', [Str ''Goalkeeper'', Str ''Goalkeeper'']),
        (''Posicion_2'', [Str [], Str [] :: number cell])]\<rparr>"
  have c: "columns ?df = [''Player'', ''Competicion'', ''Goles encajados'', ''% Paradas'',
                       ''Posicion_principal'', ''Posicion_2'']"
    by (simp add: columns_def)
  have d: "distinct (columns ?df)" unfolding c by simp
  have l: "1 < length (columns ?df)" unfolding c by simp
  have b: "columns ?df ! 1 = ''Competicion''" unfolding c by simp
  have g: "convertir_columnas_numericas_goalkeepers plain_numerics ?df ''Competicion'' = Inr ?g"
    by code_simp
  have j: "convertir_columnas_numericas_jugadores plain_numerics ?df ''Competicion'' = Inr ?j"
    by code_simp
  note t = numeric_coercion_cells [OF d l b, of plain_numerics]
  from t obtain g' where g': "convertir_columnas_numericas_goalkeepers plain_numerics ?df ''Competicion'' = Inr g'"
      "columns g' = columns ?df"
    by blast
  have "Inr g' = (Inr ?g :: exn + (string, number) dataframe)"
    using g'(1) g by (rule trans [OF sym])
  then have "g' = ?g" by (simp only: sum.inject)
  then have cg: "columns ?g = columns ?df" using g'(2) by (simp only:)
  from t obtain j' where j': "convertir_columnas_numericas_jugadores plain_numerics ?df ''Competicion'' = Inr j'"
      "columns j' = columns ?df"
    by blast
  have "Inr j' = (Inr ?j :: exn + (string, number) dataframe)"
    using j'(1) j by (rule trans [OF sym])
  then have "j' = ?j" by (simp only: sum.inject)
  then have cj: "columns ?j = columns ?df" using j'(2) by (simp only:)
  from d l b g j cg cj show ?thesis unfolding c by (intro conjI)
qed

section \<open>Table fetching: properties\<close>

lemma starts_with_sep: "c \<notin> set p \<Longrightarrow> starts_with p (a @ c # b) = starts_with p a"
  by (induction p a rule: starts_with.induct) auto

lemma str_in_sep: "c \<notin> set p \<Longrightarrow> str_in p (a @ c # b) = (str_in p a \<or> str_in p b)"
proof (induction a)
  case Nil
  then show ?case using starts_with_sep [of c p "[]" b] by simp
next
  case (Cons x a)
  then show ?case using starts_with_sep [of c p "x # a" b] by auto
qed

lemma map_of_map_SomeD:
  "map_of (map (\<lambda>x. (k x, v x)) xs) key = Some y \<Longrightarrow> \<exists>x \<in> set xs. k x = key \<and> y = v x"
  by (induction xs) (auto split: if_splits)

lemma scrape_stats_player_InrD:
  assumes "scrape_stats_player league season stat = Inr url"
  shows "\<exists>league_id slug seasons path.
           (league, league_id, slug, seasons) \<in> set possible_leagues
         \<and> season \<in> set seasons
         \<and> (stat, path) \<in> set player_tables
         \<and> url = player_url league league_id path season"
proof -
  obtain league_data season_data where
    l: "map_of generate_player_urls league = Some league_data" and
    s: "map_of league_data season = Some season_data" and
    u: "map_of season_data stat = Some url"
    using assms by (auto simp: scrape_stats_player_def split: option.splits)
  have g: "generate_player_urls =
      map (\<lambda>x. (fst x,
             map (\<lambda>season. (season,
                    map (\<lambda>t. (fst t, player_url (fst x) (fst (snd x)) (snd t) season)) player_tables))
                 (snd (snd (snd x)))))
          possible_leagues"
    by (simp add: generate_player_urls_def case_prod_unfold)
  from map_of_map_SomeD [OF l [unfolded g]] obtain x where x: "x \<in> set possible_leagues" "fst x = league"
    "league_data = map (\<lambda>season. (season,
                    map (\<lambda>t. (fst t, player_url (fst x) (fst (snd x)) (snd t) season)) player_tables))
                 (snd (snd (snd x)))"
    by blast
  from map_of_map_SomeD [OF s [unfolded x(3)]] obtain se where se: "se \<in> set (snd (snd (snd x)))" "se = season"
    "season_data = map (\<lambda>t. (fst t, player_url (fst x) (fst (snd x)) (snd t) se)) player_tables"
    by blast
  from map_of_map_SomeD [OF u [unfolded se(3)]] obtain t where t: "t \<in> set player_tables" "fst t = stat"
    "url = player_url (fst x) (fst (snd x)) (snd t) se"
    by blast
  have "(league, fst (snd x), fst (snd (snd x)), snd (snd (snd x))) \<in> set possible_leagues"
    using x(1,2) by (metis prod.collapse)
  moreover have "(stat, snd t) \<in> set player_tables"
    using t(1,2) by (metis prod.collapse)
  ultimately show ?thesis
    using se(1,2) t(3) x(2) by blast
qed

lemma player_url_split:
  "player_url league_name league_id path season =
     ''https://fbref.com/en/comps'' @ CHR ''/'' # league_id @ CHR ''/'' # path @ CHR ''/'' # season
       @ CHR ''/'' # (map (\<lambda>c. if c = CHR '' '' then CHR ''-'' else c) league_name @ ''-Stats'')"
  by (simp add: player_url_def base_url_def)

lemma str_in_player_url:
  "str_in ''Big5'' (player_url league_name league_id path season) =
     (str_in ''Big5'' league_id \<or> str_in ''Big5'' path \<or> str_in ''Big5'' season
      \<or> str_in ''Big5'' (map (\<lambda>c. if c = CHR '' '' then CHR ''-'' else c) league_name @ ''-Stats''))"
proof -
  have sep: "CHR ''/'' \<notin> set ''Big5''" by simp
  have base: "\<not> str_in ''Big5'' ''https://fbref.com/en/comps''" by simp
  show ?thesis
    unfolding player_url_split str_in_sep [OF sep] using base by blast
qed

lemma league_facts:
  "list_all (\<lambda>(league, league_id, slug, seasons).
      (str_in ''Big5'' league_id
         \<or> str_in ''Big5'' (map (\<lambda>c. if c = CHR '' '' then CHR ''-'' else c) league @ ''-Stats''))
        = (league = big5)
      \<and> list_all (\<lambda>season. \<not> str_in ''Big5'' season) seasons)
    possible_leagues"
  by (simp add: possible_leagues_def seasons_available_def big5_def)

lemma stat_facts:
  "list_all (\<lambda>(stat, path).
       \<not> str_in ''Big5'' path
     \<and> \<not> contains_nocase ''matches'' (single_key stat ''Comp'')
     \<and> \<not> contains_nocase ''Rk'' (single_key stat ''Comp''))
    player_tables"
  by (simp add: player_tables_def contains_nocase_def single_key_def ascii_lower_def)

lemma url_facts:
  assumes "scrape_stats_player league season stat = Inr url"
  shows "url \<noteq> []"
    and "str_in ''Big5'' url = (league = big5)"
    and "\<not> contains_nocase ''matches'' (single_key stat ''Comp'')"
    and "\<not> contains_nocase ''Rk'' (single_key stat ''Comp'')"
proof -
  obtain league_id slug seasons path where
    l: "(league, league_id, slug, seasons) \<in> set possible_leagues" and
    s: "season \<in> set seasons" and
    t: "(stat, path) \<in> set player_tables" and
    u: "url = player_url league league_id path season"
    using scrape_stats_player_InrD [OF assms] by blast
  show "url \<noteq> []" unfolding u player_url_split by simp
  have lf: "(str_in ''Big5'' league_id
         \<or> str_in ''Big5'' (map (\<lambda>c. if c = CHR '' '' then CHR ''-'' else c) league @ ''-Stats''))
        = (league = big5)" and sf: "\<not> str_in ''Big5'' season"
    using league_facts l s by (auto simp: list_all_iff)
  have tf: "\<not> str_in ''Big5'' path" "\<not> contains_nocase ''matches'' (single_key stat ''Comp'')"
    "\<not> contains_nocase ''Rk'' (single_key stat ''Comp'')"
    using stat_facts t by (auto simp: list_all_iff)
  show "str_in ''Big5'' url = (league = big5)"
    unfolding u str_in_player_url using lf sf tf(1) by blast
  show "\<not> contains_nocase ''matches'' (single_key stat ''Comp'')"
    "\<not> contains_nocase ''Rk'' (single_key stat ''Comp'')"
    by (rule tf(2), rule tf(3))
qed

lemma extract_tables_other_league:
  assumes "league \<noteq> big5" "scrape_stats_player league season stat = Inr url"
    "read_html w url = Inr tables"
  shows "extract_tables w league season stat save_excel
           = beautifulsoup_branch w league season stat save_excel url"
  using assms url_facts(1,2) [OF assms(2)]
  by (simp add: extract_tables_def)

lemma beautifulsoup_branch_read_html:
  "beautifulsoup_branch (w\<lparr>read_html := f\<rparr>) league season stat save_excel url
     = beautifulsoup_branch w league season stat save_excel url"
proof -
  have sel: "http_comments (w\<lparr>read_html := f\<rparr>) = http_comments w"
    "find_table (w\<lparr>read_html := f\<rparr>) = find_table w"
    "to_excel (w\<lparr>read_html := f\<rparr>) = to_excel w"
    by simp_all
  show ?thesis
    unfolding beautifulsoup_branch_def sel ..
qed

lemma beautifulsoup_branch_success:
  assumes "beautifulsoup_branch w league season stat save_excel url = (msgs, Some d, u)"
    and "\<not> failed (msgs, Some d, u)" and "league \<noteq> big5"
  shows "\<exists>comments comment table data raw ins kept.
           http_comments w url = Inr comments
         \<and> find (str_in table_container) comments = Some comment
         \<and> find_table w comment = Some table
         \<and> tbody table = Some data
         \<and> DataFrame data (headings table) = Inr raw
         \<and> df_insert (fillna0 raw) 4 ''Comp'' (replicate (nrows (fillna0 raw)) (Str league)) = Inr ins
         \<and> drop_header_rows (format_dataframe_columns (Index ins) stat) = Inr kept
         \<and> d = clean_columns kept"
  using assms
  unfolding beautifulsoup_branch_def soup_failed_def failed_def Let_def
  by (auto split: sum.splits option.splits if_splits)

lemma DataFrame_well_formed:
  assumes "DataFrame data labels = Inr raw"
  shows "well_formed raw"
proof (cases "data = []")
  case True
  with assms have "raw = \<lparr>nrows = 0, cols = map (\<lambda>k. (k, [])) labels\<rparr>"
    by (simp add: DataFrame_def)
  then show ?thesis by (simp add: well_formed_def list_all_iff)
next
  case False
  with assms have "raw = \<lparr>nrows = length data,
                cols = map (\<lambda>(j, k). (k, map (\<lambda>row. if j < length row then Str (row ! j) else NaN) data))
                           (zip [0..<length labels] labels)\<rparr>"
    by (simp add: DataFrame_def split: if_splits)
  then show ?thesis by (auto simp: well_formed_def list_all_iff)
qed

lemma well_formed_fillna0: "well_formed df \<Longrightarrow> well_formed (fillna0 df)"
  by (auto simp: well_formed_def fillna0_def list_all_iff)

lemma nrows_fillna0: "nrows (fillna0 df) = nrows df"
  by (simp add: fillna0_def)

lemma df_insert_InrD:
  assumes "df_insert df loc column val = Inr ins"
  shows "cols ins = take loc (cols df) @ (column, val) # drop loc (cols df)"
    and "loc \<le> length (cols df)" and "column \<notin> set (columns df)" and "nrows ins = nrows df"
  using assms by (auto simp: df_insert_def split: if_splits)

lemma well_formed_df_insert:
  assumes "df_insert df loc column val = Inr ins" "well_formed df" "length val = nrows df"
  shows "well_formed ins"
proof -
  have all: "\<forall>(k, cs) \<in> set (cols df). length cs = nrows df"
    using assms(2) by (simp add: well_formed_def list_all_iff)
  have "\<forall>(k, cs) \<in> set (take loc (cols df)). length cs = nrows df"
    using all by (meson in_set_takeD)
  moreover have "\<forall>(k, cs) \<in> set (drop loc (cols df)). length cs = nrows df"
    using all by (meson in_set_dropD)
  ultimately show ?thesis
    using assms(3) df_insert_InrD(1,4) [OF assms(1)]
    by (auto simp: well_formed_def list_all_iff)
qed

lemma well_formed_rename_columns: "well_formed df \<Longrightarrow> well_formed (rename_columns f df)"
  by (auto simp: well_formed_def rename_columns_def list_all_iff)

lemma rename_columns_member:
  "(k, cs) \<in> set (cols df) \<Longrightarrow> (f k, cs) \<in> set (cols (rename_columns f df))"
  by (force simp: rename_columns_def)

lemma filter_replicate_mask:
  "length keep = n \<Longrightarrow>
     map snd (filter fst (zip keep (replicate n x))) = replicate (length (filter id keep)) x"
proof (induction keep arbitrary: n)
  case Nil
  then show ?case by simp
next
  case (Cons b keep)
  then obtain m where "n = Suc m" "length keep = m" by (cases n) auto
  with Cons.IH [of m] show ?case by simp
qed

lemma drop_header_rows_constant_column:
  assumes "drop_header_rows df = Inr kept" and "well_formed df"
    and "(k, replicate (nrows df) x) \<in> set (cols df)"
  shows "(k, replicate (nrows kept) x) \<in> set (cols kept)"
proof -
  obtain k0 c0 rest where c: "cols df = (k0, c0) # rest"
    using assms(1) by (cases "cols df") (auto simp: drop_header_rows_def)
  define keep where "keep = map (\<lambda>c. case c of Str s \<Rightarrow> s \<noteq> ''Rk'' | _ \<Rightarrow> True) c0"
  have kept: "kept = \<lparr>nrows = length (filter id keep),
                  cols = map (\<lambda>(k, cs). (k, map snd (filter fst (zip keep cs)))) (cols df)\<rparr>"
    using assms(1) unfolding drop_header_rows_def c keep_def by (simp add: Let_def)
  have "length c0 = nrows df"
    using assms(2) c by (simp add: well_formed_def)
  then have len: "length keep = nrows df" by (simp add: keep_def)
  have "(k, map snd (filter fst (zip keep (replicate (nrows df) x)))) \<in> set (cols kept)"
    unfolding kept using assms(3) by force
  then show ?thesis
    unfolding filter_replicate_mask [OF len] by (simp add: kept)
qed

lemma clean_columns_member:
  assumes "(k, cs) \<in> set (cols df)" "\<not> contains_nocase ''matches'' k" "\<not> contains_nocase ''Rk'' k"
  shows "(k, cs) \<in> set (cols (clean_columns df))"
  using assms by (simp add: clean_columns_def drop_columns_containing_def)

lemma nrows_clean_columns: "nrows (clean_columns df) = nrows df"
  by (simp add: clean_columns_def drop_columns_containing_def)

lemma scrape_la_liga:
  "scrape_stats_player ''La Liga'' ''2024-2025'' ''Goalkeeping'' = Inr ''https://fbref.com/en/comps/12/keepers/players/2024-2025/La-Liga-Stats''"
  by (simp add: scrape_stats_player_def generate_player_urls_def possible_leagues_def
      seasons_available_def player_tables_def player_url_def base_url_def)

lemma extract_tables_la_liga:
  "extract_tables web_la_liga ''La Liga'' ''2024-2025'' ''Goalkeeping'' False
     = ([UrlGenerada ''https://fbref.com/en/comps/12/keepers/players/2024-2025/La-Liga-Stats''], Some \<lparr>nrows = 1, cols =
        [(''Player (Goalkeeping)'', [Str ''Unai Simon'']),
         (''Nation (Goalkeeping)'', [Str ''es ESP'']),
         (''Pos (Goalkeeping)'', [Str ''GK'']),
         (''Comp (Goalkeeping)'', [Str ''La Liga'']),
         (''Squad (Goalkeeping)'', [Str ''Athletic Club'']),
         (''Age (Goalkeeping)'', [Str ''27-100''])]\<rparr>, Some ''https://fbref.com/en/comps/12/keepers/players/2024-2025/La-Liga-Stats'')"
  unfolding extract_tables_def scrape_la_liga
  by (simp add: web_la_liga_def beautifulsoup_branch_def big5_def table_container_def
      DataFrame_def fillna0_def df_insert_def columns_def rename_columns_def single_key_def
      drop_header_rows_def clean_columns_def drop_columns_containing_def contains_nocase_def
      ascii_lower_def soup_failed_def upt_rec)

lemma named_failures_return_no_table:
  "scrape_stats_player league season stat = Inl e \<Longrightarrow>
     extract_tables w league season stat save_excel = ([ErrorUrl e], None, None)"
  "scrape_stats_player league season stat = Inr url \<Longrightarrow> read_html w url = Inl e \<Longrightarrow>
     extract_tables w league season stat save_excel
       = ([UrlGenerada url, ErrorReadHtml e], None, Some url)"
  "http_comments w url = Inl e \<Longrightarrow>
     beautifulsoup_branch w league season stat save_excel url = soup_failed url None e"
  "http_comments w url = Inr comments \<Longrightarrow> find (str_in table_container) comments = None \<Longrightarrow>
     beautifulsoup_branch w league season stat save_excel url = soup_failed url None ValueError"
  "http_comments w url = Inr comments \<Longrightarrow> find (str_in table_container) comments = Some comment \<Longrightarrow>
     find_table w comment = None \<Longrightarrow>
     beautifulsoup_branch w league season stat save_excel url = soup_failed url None ValueError"
  "http_comments w url = Inr comments \<Longrightarrow> find (str_in table_container) comments = Some comment \<Longrightarrow>
     find_table w comment = Some table \<Longrightarrow> tbody table = None \<Longrightarrow>
     beautifulsoup_branch w league season stat save_excel url = soup_failed url None AttributeError"
  using url_facts(1) [of league season stat url]
  by (simp_all add: extract_tables_def beautifulsoup_branch_def)

text \<open>
  C9. The claim holds for the failures that happen before a table has been built (see
  \<open>named_failures_return_no_table\<close>), but not on every failure path: when the comment
  table of a league other than the Big 5 has fewer than four columns, \<open>df.insert(4, ...)\<close>
  raises, the handler prints the error and returns the table extracted so far, not
  \<open>None\<close>.
\<close>

theorem extract_tables_partial_table_on_failure:
  "extract_tables web_small_table ''La Liga'' ''2024-2025'' ''Goalkeeping'' False
     = ([UrlGenerada ''https://fbref.com/en/comps/12/keepers/players/2024-2025/La-Liga-Stats'', ErrorBeautifulSoup IndexError],
        Some \<lparr>nrows = 1, cols = [(''Rk'', [Str ''1'']), (''Player'', [Str ''Unai Simon''])]\<rparr>,
        Some ''https://fbref.com/en/comps/12/keepers/players/2024-2025/La-Liga-Stats'')
   \<and> failed (extract_tables web_small_table ''La Liga'' ''2024-2025'' ''Goalkeeping'' False)"
proof -
  have "extract_tables web_small_table ''La Liga'' ''2024-2025'' ''Goalkeeping'' False
     = ([UrlGenerada ''https://fbref.com/en/comps/12/keepers/players/2024-2025/La-Liga-Stats'', ErrorBeautifulSoup IndexError],
        Some \<lparr>nrows = 1, cols = [(''Rk'', [Str ''1'']), (''Player'', [Str ''Unai Simon''])]\<rparr>,
        Some ''https://fbref.com/en/comps/12/keepers/players/2024-2025/La-Liga-Stats'')"
    unfolding extract_tables_def scrape_la_liga
    by (simp add: web_small_table_def beautifulsoup_branch_def big5_def table_container_def
        DataFrame_def fillna0_def df_insert_def columns_def soup_failed_def upt_rec)
  then show ?thesis by (simp add: failed_def)
qed

lemma other_league_comment_table:
  assumes "league \<noteq> big5" and "scrape_stats_player league season stat = Inr url"
    and "read_html w url = Inr tables"
  shows "\<not> str_in ''Big5'' url
       \<and> extract_tables w league season stat save_excel
           = extract_tables (w\<lparr>read_html := (\<lambda>u. Inr tables')\<rparr>) league season stat save_excel
       \<and> (\<forall>msgs d u.
            extract_tables w league season stat save_excel = (msgs, Some d, u)
              \<and> \<not> failed (msgs, Some d, u) \<longrightarrow>
            (\<exists>comments comment table data raw ins kept.
               http_comments w url = Inr comments
             \<and> find (str_in table_container) comments = Some comment
             \<and> find_table w comment = Some table
             \<and> tbody table = Some data
             \<and> DataFrame data (headings table) = Inr raw
             \<and> df_insert (fillna0 raw) 4 ''Comp'' (replicate (nrows raw) (Str league)) = Inr ins
             \<and> 4 \<le> length (cols raw)
             \<and> cols ins = take 4 (cols (fillna0 raw)) @ (''Comp'', replicate (nrows raw) (Str league))
                             # drop 4 (cols (fillna0 raw))
             \<and> drop_header_rows (format_dataframe_columns (Index ins) stat) = Inr kept
             \<and> d = clean_columns kept
             \<and> (''Comp ('' @ stat @ '')'', replicate (nrows d) (Str league)) \<in> set (cols d)))"
proof -
  have no: "\<not> str_in ''Big5'' url"
    using url_facts(2) [OF assms(2)] assms(1) by simp
  have e: "extract_tables w league season stat save_excel
           = beautifulsoup_branch w league season stat save_excel url"
    using assms by (rule extract_tables_other_league)
  have "read_html (w\<lparr>read_html := (\<lambda>u. Inr tables')\<rparr>) url = Inr tables'" by simp
  then have "extract_tables (w\<lparr>read_html := (\<lambda>u. Inr tables')\<rparr>) league season stat save_excel
           = beautifulsoup_branch (w\<lparr>read_html := (\<lambda>u. Inr tables')\<rparr>) league season stat save_excel url"
    using assms(1,2) by (intro extract_tables_other_league)
  then have same: "extract_tables w league season stat save_excel
           = extract_tables (w\<lparr>read_html := (\<lambda>u. Inr tables')\<rparr>) league season stat save_excel"
    unfolding e beautifulsoup_branch_read_html by simp
  have comp: "\<exists>comments comment table data raw ins kept.
               http_comments w url = Inr comments
             \<and> find (str_in table_container) comments = Some comment
             \<and> find_table w comment = Some table
             \<and> tbody table = Some data
             \<and> DataFrame data (headings table) = Inr raw
             \<and> df_insert (fillna0 raw) 4 ''Comp'' (replicate (nrows raw) (Str league)) = Inr ins
             \<and> 4 \<le> length (cols raw)
             \<and> cols ins = take 4 (cols (fillna0 raw)) @ (''Comp'', replicate (nrows raw) (Str league))
                             # drop 4 (cols (fillna0 raw))
             \<and> drop_header_rows (format_dataframe_columns (Index ins) stat) = Inr kept
             \<and> d = clean_columns kept
             \<and> (''Comp ('' @ stat @ '')'', replicate (nrows d) (Str league)) \<in> set (cols d)"
    if r: "extract_tables w league season stat save_excel = (msgs, Some d, u)"
      and nf: "\<not> failed (msgs, Some d, u)" for msgs d u
  proof -
    from r have "beautifulsoup_branch w league season stat save_excel url = (msgs, Some d, u)"
      unfolding e .
    from beautifulsoup_branch_success [OF this nf assms(1)]
    obtain comments comment table data raw ins kept where
      1: "http_comments w url = Inr comments"
         "find (str_in table_container) comments = Some comment"
         "find_table w comment = Some table"
         "tbody table = Some data"
         "DataFrame data (headings table) = Inr raw" and
      ins: "df_insert (fillna0 raw) 4 ''Comp'' (replicate (nrows (fillna0 raw)) (Str league)) = Inr ins" and
      kept: "drop_header_rows (format_dataframe_columns (Index ins) stat) = Inr kept" and
      d: "d = clean_columns kept"
      by blast
    let ?v = "replicate (nrows raw) (Str league)"
    have ins': "df_insert (fillna0 raw) 4 ''Comp'' ?v = Inr ins"
      using ins by (simp add: nrows_fillna0)
    have wf: "well_formed (fillna0 raw)"
      using 1(5) by (intro well_formed_fillna0 DataFrame_well_formed)
    have ci: "cols ins = take 4 (cols (fillna0 raw)) @ (''Comp'', ?v) # drop 4 (cols (fillna0 raw))"
      using ins' by (rule df_insert_InrD(1))
    have "4 \<le> length (cols (fillna0 raw))"
      using ins' by (rule df_insert_InrD(2))
    then have four: "4 \<le> length (cols raw)" by (simp add: fillna0_def)
    have ni: "nrows ins = nrows raw"
      using df_insert_InrD(4) [OF ins'] by (simp add: nrows_fillna0)
    have wi: "well_formed ins"
      using ins' wf by (rule well_formed_df_insert) (simp add: nrows_fillna0)
    let ?f = "format_dataframe_columns (Index ins) stat"
    have "(''Comp'', replicate (nrows ins) (Str league)) \<in> set (cols ins)"
      unfolding ci ni by simp
    then have "(single_key stat ''Comp'', replicate (nrows ins) (Str league)) \<in> set (cols ?f)"
      unfolding format_dataframe_columns.simps by (rule rename_columns_member)
    then have mf: "(single_key stat ''Comp'', replicate (nrows ?f) (Str league)) \<in> set (cols ?f)"
      by (simp add: nrows_rename_columns)
    have wff: "well_formed ?f"
      unfolding format_dataframe_columns.simps using wi by (rule well_formed_rename_columns)
    have "(single_key stat ''Comp'', replicate (nrows kept) (Str league)) \<in> set (cols kept)"
      using kept wff mf by (rule drop_header_rows_constant_column)
    then have "(single_key stat ''Comp'', replicate (nrows kept) (Str league)) \<in> set (cols (clean_columns kept))"
      using url_facts(3,4) [OF assms(2)] by (rule clean_columns_member)
    then have "(''Comp ('' @ stat @ '')'', replicate (nrows d) (Str league)) \<in> set (cols d)"
      unfolding d by (simp add: nrows_clean_columns single_key_def)
    with 1 ins' four ci kept d show ?thesis by blast
  qed
  from no same comp show ?thesis by blast
qed

lemma extract_tables_small_table:
  "extract_tables web_small_table ''La Liga'' ''2024-2025'' ''Goalkeeping'' False
     = ([UrlGenerada ''https://fbref.com/en/comps/12/keepers/players/2024-2025/La-Liga-Stats'', ErrorBeautifulSoup IndexError],
        Some \<lparr>nrows = 1, cols = [(''Rk'', [Str ''1'']), (''Player'', [Str ''Unai Simon''])]\<rparr>,
        Some ''https://fbref.com/en/comps/12/keepers/players/2024-2025/La-Liga-Stats'')"
  unfolding extract_tables_def scrape_la_liga
  by (simp add: web_small_table_def beautifulsoup_branch_def big5_def table_container_def
      DataFrame_def fillna0_def df_insert_def columns_def soup_failed_def upt_rec)

text \<open>
  C10. The first half of the claim holds: for a league other than
  \<open>Big 5 European Leagues\<close> the ''https://fbref.com/en/comps/12/keepers/players/2024-2025/La-Liga-Stats'' does not contain \<open>Big5\<close>, and the result is that of
  the comment-table branch whatever \<open>pd.read_html\<close> parsed; a table returned without an
  error message has the column \<open>Comp\<close> inserted at position 4 with the league name in
  every row (lemma \<open>other_league_comment_table\<close>). But not every returned table has it:
  for \<open>La Liga\<close>, when the comment table has the two headings \<open>Rk\<close> and \<open>Player\<close>,
  \<open>df.insert(4, 'Comp', ...)\<close> raises, the handler returns the table built so far, and
  the call returns a table whose columns are \<open>Rk\<close> and \<open>Player\<close>, with no \<open>Comp\<close> column
  and no cell holding the league name.
\<close>

theorem extract_tables_returns_table_without_comp:
  "''La Liga'' \<noteq> big5
   \<and> scrape_stats_player ''La Liga'' ''2024-2025'' ''Goalkeeping'' = Inr ''https://fbref.com/en/comps/12/keepers/players/2024-2025/La-Liga-Stats''
   \<and> \<not> str_in ''Big5'' ''https://fbref.com/en/comps/12/keepers/players/2024-2025/La-Liga-Stats''
   \<and> read_html web_small_table ''https://fbref.com/en/comps/12/keepers/players/2024-2025/La-Liga-Stats''
        = Inr [Index \<lparr>nrows = 1, cols = [(''Squad'', [Str ''Athletic Club''])]\<rparr>]
   \<and> fst (extract_tables web_small_table ''La Liga'' ''2024-2025'' ''Goalkeeping'' False)
        = [UrlGenerada ''https://fbref.com/en/comps/12/keepers/players/2024-2025/La-Liga-Stats'', ErrorBeautifulSoup IndexError]
   \<and> map_option columns
        (fst (snd (extract_tables web_small_table ''La Liga'' ''2024-2025'' ''Goalkeeping'' False)))
        = Some [''Rk'', ''Player'']
   \<and> map_option (\<lambda>d. concat (map snd (cols d)))
        (fst (snd (extract_tables web_small_table ''La Liga'' ''2024-2025'' ''Goalkeeping'' False)))
        = Some [Str ''1'', Str ''Unai Simon'']"
proof -
  have a: "''La Liga'' \<noteq> big5" by (simp add: big5_def)
  have b: "\<not> str_in ''Big5'' ''https://fbref.com/en/comps/12/keepers/players/2024-2025/La-Liga-Stats''"
    using url_facts(2) [OF scrape_la_liga] a by simp
  have c: "read_html web_small_table ''https://fbref.com/en/comps/12/keepers/players/2024-2025/La-Liga-Stats''
        = Inr [Index \<lparr>nrows = 1, cols = [(''Squad'', [Str ''Athletic Club''])]\<rparr>]"
    by (simp add: web_small_table_def)
  have d: "fst (extract_tables web_small_table ''La Liga'' ''2024-2025'' ''Goalkeeping'' False)
        = [UrlGenerada ''https://fbref.com/en/comps/12/keepers/players/2024-2025/La-Liga-Stats'', ErrorBeautifulSoup IndexError]"
    unfolding extract_tables_small_table by simp
  have e: "map_option columns
        (fst (snd (extract_tables web_small_table ''La Liga'' ''2024-2025'' ''Goalkeeping'' False)))
        = Some [''Rk'', ''Player'']"
    unfolding extract_tables_small_table by (simp add: columns_def)
  have f: "map_option (\<lambda>d. concat (map snd (cols d)))
        (fst (snd (extract_tables web_small_table ''La Liga'' ''2024-2025'' ''Goalkeeping'' False)))
        = Some [Str ''1'', Str ''Unai Simon'']"
    unfolding extract_tables_small_table by simp
  from a scrape_la_liga b c d e f show ?thesis by (intro conjI)
qed

end
